theory Spec2Isabelle
  imports Complex_Main "HOL-Library.Multiset"
begin

section \<open>Arithmetic model\<close>

text \<open>
  The weighting engine (\<^verbatim>\<open>src/research/weighting_algorithm.py\<close>) computes on
  numpy/pandas \<^verbatim>\<open>float64\<close> values. A value is modelled as either a finite
  number or one of the three IEEE-754 special values. In the weighting itself
  finite arithmetic is exact (a finite value is a \<^typ>\<open>real\<close>): rounding, overflow
  and the sign of zero are abstracted away, while the special values that division
  by zero introduces and the way they propagate are kept, following IEEE-754 (a
  non-zero finite value divided by zero is read as divided by \<open>+0\<close>). The
  constructor's tolerance check is modelled with rounding, see the section on
  the configuration.
\<close>

datatype float64 = Fin real | PInf | NInf | NaN

fun fneg :: "float64 \<Rightarrow> float64" where
  "fneg (Fin a) = Fin (- a)"
| "fneg PInf = NInf"
| "fneg NInf = PInf"
| "fneg NaN = NaN"

fun fadd :: "float64 \<Rightarrow> float64 \<Rightarrow> float64" where
  "fadd (Fin a) (Fin b) = Fin (a + b)"
| "fadd NaN _ = NaN"
| "fadd _ NaN = NaN"
| "fadd PInf NInf = NaN"
| "fadd NInf PInf = NaN"
| "fadd PInf _ = PInf"
| "fadd _ PInf = PInf"
| "fadd NInf _ = NInf"
| "fadd _ NInf = NInf"

definition fsub :: "float64 \<Rightarrow> float64 \<Rightarrow> float64" where
  "fsub x y = fadd x (fneg y)"

text \<open>The sign of an infinity times (or divided by) a finite value.\<close>

definition signed_inf :: "bool \<Rightarrow> float64" where
  "signed_inf positive = (if positive then PInf else NInf)"

fun fmul :: "float64 \<Rightarrow> float64 \<Rightarrow> float64" where
  "fmul (Fin a) (Fin b) = Fin (a * b)"
| "fmul NaN _ = NaN"
| "fmul _ NaN = NaN"
| "fmul PInf (Fin b) = (if b = 0 then NaN else signed_inf (0 < b))"
| "fmul NInf (Fin b) = (if b = 0 then NaN else signed_inf (b < 0))"
| "fmul (Fin a) PInf = (if a = 0 then NaN else signed_inf (0 < a))"
| "fmul (Fin a) NInf = (if a = 0 then NaN else signed_inf (a < 0))"
| "fmul PInf PInf = PInf"
| "fmul NInf NInf = PInf"
| "fmul PInf NInf = NInf"
| "fmul NInf PInf = NInf"

fun fdiv :: "float64 \<Rightarrow> float64 \<Rightarrow> float64" where
  "fdiv (Fin a) (Fin b) =
     (if b \<noteq> 0 then Fin (a / b)
      else if a = 0 then NaN
      else signed_inf (0 < a))"
| "fdiv NaN _ = NaN"
| "fdiv _ NaN = NaN"
| "fdiv (Fin a) PInf = Fin 0"
| "fdiv (Fin a) NInf = Fin 0"
| "fdiv PInf (Fin b) = signed_inf (0 \<le> b)"
| "fdiv NInf (Fin b) = signed_inf (b < 0)"
| "fdiv PInf _ = NaN"
| "fdiv NInf _ = NaN"

text \<open>Comparisons: every comparison with NaN is false, also \<open>NaN == NaN\<close>.\<close>

fun flt :: "float64 \<Rightarrow> float64 \<Rightarrow> bool" where
  "flt NaN _ = False"
| "flt _ NaN = False"
| "flt (Fin a) (Fin b) = (a < b)"
| "flt NInf NInf = False"
| "flt NInf _ = True"
| "flt PInf _ = False"
| "flt (Fin a) PInf = True"
| "flt (Fin a) NInf = False"

fun feq :: "float64 \<Rightarrow> float64 \<Rightarrow> bool" where
  "feq NaN _ = False"
| "feq _ NaN = False"
| "feq x y = (x = y)"

definition fle :: "float64 \<Rightarrow> float64 \<Rightarrow> bool" where
  "fle x y = (flt x y \<or> feq x y)"

definition isna :: "float64 \<Rightarrow> bool" where
  "isna x = (x = NaN)"

definition np_log10 :: "float64 \<Rightarrow> float64" where
  "np_log10 x =
     (case x of
        Fin r \<Rightarrow> (if 0 < r then Fin (log 10 r) else if r = 0 then NInf else NaN)
      | PInf \<Rightarrow> PInf
      | NInf \<Rightarrow> NaN
      | NaN \<Rightarrow> NaN)"

section \<open>pandas Series operations\<close>

text \<open>
  A \<^verbatim>\<open>pd.Series\<close> of floats over the default positional index is a list.
  Reductions (\<^verbatim>\<open>sum\<close>, \<^verbatim>\<open>min\<close>, \<^verbatim>\<open>max\<close>) skip NaN entries
  (\<^verbatim>\<open>skipna=True\<close>); the sum of no entries is 0 and the minimum or maximum
  of no entries is NaN.
\<close>

type_synonym series = "float64 list"

definition dropna :: "series \<Rightarrow> series" where
  "dropna xs = filter (\<lambda>x. \<not> isna x) xs"

text \<open>Python's builtin \<^verbatim>\<open>sum\<close>: a left fold from 0 that does not skip NaN.\<close>

definition py_sum :: "float64 list \<Rightarrow> float64" where
  "py_sum xs = foldl fadd (Fin 0) xs"

definition series_sum :: "series \<Rightarrow> float64" where
  "series_sum xs = py_sum (dropna xs)"

definition fmin2 :: "float64 \<Rightarrow> float64 \<Rightarrow> float64" where
  "fmin2 a b = (if flt b a then b else a)"

definition fmax2 :: "float64 \<Rightarrow> float64 \<Rightarrow> float64" where
  "fmax2 a b = (if flt a b then b else a)"

definition series_min :: "series \<Rightarrow> float64" where
  "series_min xs = (case dropna xs of [] \<Rightarrow> NaN | y # ys \<Rightarrow> foldl fmin2 y ys)"

definition series_max :: "series \<Rightarrow> float64" where
  "series_max xs = (case dropna xs of [] \<Rightarrow> NaN | y # ys \<Rightarrow> foldl fmax2 y ys)"

text \<open>
  \<^verbatim>\<open>Series.clip(lower, upper)\<close> with two scalar bounds: pandas first orders the
  bounds (\<^verbatim>\<open>lower, upper = min(lower, upper), max(lower, upper)\<close>), then
  raises entries below the lower bound and lowers entries above the upper bound;
  NaN entries stay NaN.
\<close>

definition clip_scalar :: "real \<Rightarrow> real \<Rightarrow> float64 \<Rightarrow> float64" where
  "clip_scalar lo hi x =
     (if isna x then x
      else let y = (if flt x (Fin lo) then Fin lo else x)
           in if flt (Fin hi) y then Fin hi else y)"

definition series_clip :: "real \<Rightarrow> real \<Rightarrow> series \<Rightarrow> series" where
  "series_clip lower upper xs = map (clip_scalar (min lower upper) (max lower upper)) xs"

definition series_replace :: "float64 \<Rightarrow> float64 \<Rightarrow> series \<Rightarrow> series" where
  "series_replace old new xs = map (\<lambda>x. if feq x old then new else x) xs"

definition fillna :: "float64 \<Rightarrow> series \<Rightarrow> series" where
  "fillna v xs = map (\<lambda>x. if isna x then v else x) xs"

definition series_add :: "series \<Rightarrow> series \<Rightarrow> series" where
  "series_add xs ys = map (\<lambda>(x, y). fadd x y) (zip xs ys)"

definition series_mul_scalar :: "series \<Rightarrow> float64 \<Rightarrow> series" where
  "series_mul_scalar xs k = map (\<lambda>x. fmul x k) xs"

definition series_sub_scalar :: "series \<Rightarrow> float64 \<Rightarrow> series" where
  "series_sub_scalar xs k = map (\<lambda>x. fsub x k) xs"

definition series_div_scalar :: "series \<Rightarrow> float64 \<Rightarrow> series" where
  "series_div_scalar xs k = map (\<lambda>x. fdiv x k) xs"

section \<open>Configuration\<close>

record SpaceIndexWeighting =
  w_space_rev :: real
  w_market_cap :: real
  w_growth :: real
  max_weight :: real
  min_weight :: real

datatype error = ValueError

text \<open>
  The constructor's check compares a sum of three \<^verbatim>\<open>float64\<close> values with a
  tolerance, and its outcome near the tolerance depends on how the sum is rounded.
  Here, and only here, every float operation is therefore rounded: \<open>round53\<close> is
  IEEE-754 rounding to nearest, ties to even, to 53 significant bits. The exponent
  range is not bounded. A sum of two \<^verbatim>\<open>float64\<close> values in the subnormal range
  is exact in both; a sum beyond the largest \<^verbatim>\<open>float64\<close> is a number far from 1
  here and infinity in numpy, and \<^verbatim>\<open>np.isclose\<close> is false for both.
\<close>

definition round_half_even :: "real \<Rightarrow> int" where
  "round_half_even r =
     (let n = \<lfloor>r\<rfloor>; f = r - of_int n
      in if f < 1 / 2 then n
         else if 1 / 2 < f then n + 1
         else if even n then n else n + 1)"

definition round53 :: "real \<Rightarrow> real" where
  "round53 x =
     (if x = 0 then 0
      else let q = 2 powr (of_int \<lfloor>log 2 \<bar>x\<bar>\<rfloor> - 52)
           in of_int (round_half_even (x / q)) * q)"

text \<open>
  \<^verbatim>\<open>np.isclose(a, b)\<close> for finite arguments, with numpy's default tolerances
  \<^verbatim>\<open>rtol=1e-05, atol=1e-08\<close> (the \<^verbatim>\<open>float64\<close> values nearest to these
  decimals): \<^verbatim>\<open>abs(a - b) <= atol + rtol * abs(b)\<close>, evaluated in
  \<^verbatim>\<open>float64\<close>.
\<close>

definition rtol :: real where
  "rtol = round53 (1 / 100000)"

definition atol :: real where
  "atol = round53 (1 / 100000000)"

definition np_isclose :: "real \<Rightarrow> real \<Rightarrow> bool" where
  "np_isclose a b = (\<bar>round53 (a - b)\<bar> \<le> round53 (atol + round53 (rtol * \<bar>b\<bar>)))"

text \<open>
  \<^verbatim>\<open>SpaceIndexWeighting.__init__\<close>: the only check is on the factor weights,
  whose sum Python evaluates from left to right.
\<close>

definition init :: "real \<Rightarrow> real \<Rightarrow> real \<Rightarrow> real \<Rightarrow> real \<Rightarrow> error + SpaceIndexWeighting" where
  "init space_revenue_weight market_cap_weight growth_weight max_position_size min_position_size =
     (let total = round53 (round53 (space_revenue_weight + market_cap_weight) + growth_weight)
      in if \<not> np_isclose total 1 then Inl ValueError
         else Inr \<lparr>w_space_rev = space_revenue_weight,
                   w_market_cap = market_cap_weight,
                   w_growth = growth_weight,
                   max_weight = max_position_size,
                   min_weight = min_position_size\<rparr>)"

section \<open>Factor normalisation\<close>

definition normalize_market_cap :: "series \<Rightarrow> series" where
  "normalize_market_cap market_caps =
     (let log_caps = map np_log10 (series_replace (Fin 0) NaN market_caps);
          min_val = series_min log_caps;
          max_val = series_max log_caps
      in if feq max_val min_val then map (\<lambda>_. Fin 50) market_caps
         else fillna (Fin 0)
                (series_mul_scalar
                   (series_div_scalar (series_sub_scalar log_caps min_val) (fsub max_val min_val))
                   (Fin 100)))"

definition normalize_growth :: "series \<Rightarrow> series" where
  "normalize_growth growth_rates =
     (let clipped = series_clip (- 50) 200 growth_rates;
          min_val = series_min clipped;
          max_val = series_max clipped
      in if feq max_val min_val then map (\<lambda>_. Fin 50) growth_rates
         else series_mul_scalar
                (series_div_scalar (series_sub_scalar clipped min_val) (fsub max_val min_val))
                (Fin 100))"

section \<open>Weight construction\<close>

text \<open>
  One row of the input \<^verbatim>\<open>DataFrame\<close>; the field \<open>row_x\<close> is the column
  \<^verbatim>\<open>row['x']\<close>. Numeric columns hold finite numbers. The optional columns
  \<^verbatim>\<open>name\<close> and \<^verbatim>\<open>segments\<close> are read with
  \<^verbatim>\<open>row.get(_, '')\<close>, so an absent column is the empty string.
\<close>

record company_row =
  row_ticker :: string
  row_name :: string
  row_market_cap :: real
  row_space_revenue_pct :: real
  row_revenue_growth_rate :: real
  row_segments :: string

record IndexConstituent =
  ticker :: string
  name :: string
  market_cap :: float64
  space_revenue_pct :: float64
  revenue_growth_rate :: float64
  raw_score :: float64
  weight :: float64
  segments :: string

text \<open>Lines 128 to 138 of \<^verbatim>\<open>calculate_weights\<close>: the blended raw scores.\<close>

definition raw_scores :: "SpaceIndexWeighting \<Rightarrow> company_row list \<Rightarrow> series" where
  "raw_scores self companies =
     (let norm_space_rev = map (\<lambda>r. Fin (row_space_revenue_pct r)) companies;
          norm_market_cap = normalize_market_cap (map (\<lambda>r. Fin (row_market_cap r)) companies);
          norm_growth = normalize_growth (map (\<lambda>r. Fin (row_revenue_growth_rate r)) companies)
      in series_add
           (series_add
              (series_mul_scalar norm_space_rev (Fin (w_space_rev self)))
              (series_mul_scalar norm_market_cap (Fin (w_market_cap self))))
           (series_mul_scalar norm_growth (Fin (w_growth self))))"

text \<open>Lines 140 to 147: divide by the total, clip, divide by the new total.\<close>

definition weights :: "SpaceIndexWeighting \<Rightarrow> series \<Rightarrow> series" where
  "weights self scores =
     (let unconstrained = series_div_scalar scores (series_sum scores);
          clipped = series_clip (min_weight self) (max_weight self) unconstrained
      in series_div_scalar clipped (series_sum clipped))"

definition make_constituent :: "company_row \<Rightarrow> float64 \<Rightarrow> float64 \<Rightarrow> IndexConstituent" where
  "make_constituent row s w =
     \<lparr>ticker = row_ticker row,
      name = row_name row,
      market_cap = Fin (row_market_cap row),
      space_revenue_pct = Fin (row_space_revenue_pct row),
      revenue_growth_rate = Fin (row_revenue_growth_rate row),
      raw_score = s,
      weight = w,
      segments = row_segments row\<rparr>"

text \<open>Lines 149 to 162: the list built by the loop over the rows, in input order.\<close>

definition constituents :: "SpaceIndexWeighting \<Rightarrow> company_row list \<Rightarrow> IndexConstituent list" where
  "constituents self companies =
     (let scores = raw_scores self companies;
          ws = weights self scores
      in map (\<lambda>(row, s, w). make_constituent row s w) (zip companies (zip scores ws)))"

text \<open>
  \<^verbatim>\<open>list.sort(key=..., reverse=True)\<close>: a stable sort into descending key
  order that compares keys with \<^verbatim>\<open><\<close> only. It is modelled by stable
  insertion: an element moves behind exactly the elements whose key is strictly
  greater. Whenever \<^verbatim>\<open><\<close> orders the keys present (no NaN among them, or
  nothing but NaN) every stable sort returns this same list.
\<close>

fun insort_reverse :: "('a \<Rightarrow> float64) \<Rightarrow> 'a \<Rightarrow> 'a list \<Rightarrow> 'a list" where
  "insort_reverse key x [] = [x]"
| "insort_reverse key x (y # ys) =
     (if flt (key x) (key y) then y # insort_reverse key x ys else x # y # ys)"

definition sort_reverse :: "('a \<Rightarrow> float64) \<Rightarrow> 'a list \<Rightarrow> 'a list" where
  "sort_reverse key xs = foldr (insort_reverse key) xs []"

definition calculate_weights :: "SpaceIndexWeighting \<Rightarrow> company_row list \<Rightarrow> IndexConstituent list" where
  "calculate_weights self companies =
     (if length companies = 0 then []
      else sort_reverse weight (constituents self companies))"

section \<open>Summary statistics\<close>

text \<open>
  The returned \<^verbatim>\<open>dict\<close> is an association list in insertion order; the empty
  list is \<^verbatim>\<open>{}\<close>. Python's \<^verbatim>\<open>max\<close> and \<^verbatim>\<open>min\<close> keep the first
  item and replace it when a later item compares strictly greater (smaller).
\<close>

datatype stat_value = IntVal int | FloatVal float64

fun summary_stats :: "IndexConstituent list \<Rightarrow> (string \<times> stat_value) list" where
  "summary_stats [] = []"
| "summary_stats (c # cs) =
     (let constituents = c # cs;
          total_market_cap = py_sum (map (\<lambda>c. fmul (market_cap c) (weight c)) constituents);
          avg_space_rev = py_sum (map (\<lambda>c. fmul (space_revenue_pct c) (weight c)) constituents);
          avg_growth = py_sum (map (\<lambda>c. fmul (revenue_growth_rate c) (weight c)) constituents)
      in [(''num_constituents'', IntVal (int (length constituents))),
          (''total_weight'', FloatVal (py_sum (map weight constituents))),
          (''weighted_avg_market_cap'', FloatVal total_market_cap),
          (''weighted_avg_space_rev_pct'', FloatVal avg_space_rev),
          (''weighted_avg_growth'', FloatVal avg_growth),
          (''max_weight'', FloatVal (foldl fmax2 (weight c) (map weight cs))),
          (''min_weight'', FloatVal (foldl fmin2 (weight c) (map weight cs)))])"

section \<open>The documented computation over the reals\<close>

text \<open>
  The computation as it is documented, on real numbers and with no special values.
  \<open>cap_norm\<close> and \<open>growth_norm\<close> are the normalised factors: min-max rescaling
  to 0..100 of the base-10 logarithms of the positive market caps, and of the
  growth rates clipped to -50..200, with the neutral score 50 for a degenerate
  range and 0 for a market cap without a logarithm. \<open>blended_scores\<close> is the
  linear blend, \<open>clip_renormalize\<close> the two steps clip to \<open>[min_w, max_w]\<close> and
  divide by the new sum. These definitions are compared with the code's below.
\<close>

definition clip_real :: "real \<Rightarrow> real \<Rightarrow> real \<Rightarrow> real" where
  "clip_real lo hi x = min hi (max lo x)"

definition rescale :: "real \<Rightarrow> real \<Rightarrow> real \<Rightarrow> real" where
  "rescale lo hi x = (x - lo) / (hi - lo) * 100"

definition known_logs :: "real list \<Rightarrow> real list" where
  "known_logs caps = map (log 10) (filter (\<lambda>c. 0 < c) caps)"

definition cap_norm :: "real list \<Rightarrow> real list" where
  "cap_norm caps =
     (let ls = known_logs caps
      in if ls = [] then map (\<lambda>_. 0) caps
         else if Max (set ls) = Min (set ls) then map (\<lambda>_. 50) caps
         else map (\<lambda>c. if 0 < c then rescale (Min (set ls)) (Max (set ls)) (log 10 c) else 0) caps)"

definition growth_norm :: "real list \<Rightarrow> real list" where
  "growth_norm gs =
     (let cs = map (clip_real (- 50) 200) gs
      in if Max (set cs) = Min (set cs) then map (\<lambda>_. 50) gs
         else map (rescale (Min (set cs)) (Max (set cs))) cs)"

definition blended_scores :: "SpaceIndexWeighting \<Rightarrow> company_row list \<Rightarrow> real list" where
  "blended_scores self companies =
     map (\<lambda>(r, c, g). row_space_revenue_pct r * w_space_rev self
                       + c * w_market_cap self + g * w_growth self)
       (zip companies
          (zip (cap_norm (map row_market_cap companies))
               (growth_norm (map row_revenue_growth_rate companies))))"

definition clip_renormalize :: "real \<Rightarrow> real \<Rightarrow> real list \<Rightarrow> real list" where
  "clip_renormalize min_w max_w s =
     (let unconstrained = map (\<lambda>x. x / sum_list s) s;
          clipped = map (clip_real min_w max_w) unconstrained
      in map (\<lambda>x. x / sum_list clipped) clipped)"

definition documented_constituents ::
    "SpaceIndexWeighting \<Rightarrow> company_row list \<Rightarrow> IndexConstituent list" where
  "documented_constituents self companies =
     (let s = blended_scores self companies;
          w = clip_renormalize (min_weight self) (max_weight self) s
      in map (\<lambda>(row, s, w). make_constituent row (Fin s) (Fin w)) (zip companies (zip s w)))"

section \<open>Example inputs\<close>

text \<open>A row with the given ticker, market cap, space revenue percentage and growth rate.\<close>

definition company :: "string \<Rightarrow> real \<Rightarrow> real \<Rightarrow> real \<Rightarrow> company_row" where
  "company t cap pct growth =
     \<lparr>row_ticker = t, row_name = [], row_market_cap = cap,
      row_space_revenue_pct = pct, row_revenue_growth_rate = growth, row_segments = []\<rparr>"

text \<open>
  The configuration that weights exposure only, with the constructor's default
  position bounds; and the configuration of the three-candidate scenario of the
  specification (factor weights 0.4, 0.3, 0.3, bounds 0.05 and 0.7).
\<close>

definition exposure_only :: SpaceIndexWeighting where
  "exposure_only =
     \<lparr>w_space_rev = 1, w_market_cap = 0, w_growth = 0, max_weight = 0.15, min_weight = 0.01\<rparr>"

definition scenario_config :: SpaceIndexWeighting where
  "scenario_config =
     \<lparr>w_space_rev = 0.4, w_market_cap = 0.3, w_growth = 0.3, max_weight = 0.7, min_weight = 0.05\<rparr>"

definition scenario_companies :: "company_row list" where
  "scenario_companies =
     [company ''A'' 1000000000 100 50,
      company ''B'' 100000000000 50 10,
      company ''C'' 10000000 10 0]"

section \<open>Finite series\<close>

lemma foldl_fadd_Fin: "foldl fadd (Fin a) (map Fin rs) = Fin (a + sum_list rs)"
  by (induction rs arbitrary: a) (simp_all add: add.assoc)

lemma py_sum_Fin: "py_sum (map Fin rs) = Fin (sum_list rs)"
  by (simp add: py_sum_def foldl_fadd_Fin)

lemma dropna_Fin: "dropna (map Fin rs) = map Fin rs"
  by (induction rs) (simp_all add: dropna_def isna_def)

lemma series_sum_Fin: "series_sum (map Fin rs) = Fin (sum_list rs)"
  by (simp add: series_sum_def dropna_Fin py_sum_Fin)

lemma foldl_fmin2_Fin: "foldl fmin2 (Fin a) (map Fin rs) = Fin (fold min rs a)"
  by (induction rs arbitrary: a) (simp_all add: fmin2_def min_def)

lemma foldl_fmax2_Fin: "foldl fmax2 (Fin a) (map Fin rs) = Fin (fold max rs a)"
  by (induction rs arbitrary: a) (simp_all add: fmax2_def max_def)

lemma series_min_Fin:
  assumes "dropna xs = map Fin rs" and "rs \<noteq> []"
  shows "series_min xs = Fin (Min (set rs))"
proof -
  from assms(2) obtain r rs' where rs: "rs = r # rs'" by (cases rs) auto
  show ?thesis
    unfolding series_min_def assms(1) rs
    by (simp add: foldl_fmin2_Fin Min.set_eq_fold del: set_simps)
qed

lemma series_max_Fin:
  assumes "dropna xs = map Fin rs" and "rs \<noteq> []"
  shows "series_max xs = Fin (Max (set rs))"
proof -
  from assms(2) obtain r rs' where rs: "rs = r # rs'" by (cases rs) auto
  show ?thesis
    unfolding series_max_def assms(1) rs
    by (simp add: foldl_fmax2_Fin Max.set_eq_fold del: set_simps)
qed

lemma series_min_empty: "dropna xs = [] \<Longrightarrow> series_min xs = NaN"
  by (simp add: series_min_def)

lemma series_max_empty: "dropna xs = [] \<Longrightarrow> series_max xs = NaN"
  by (simp add: series_max_def)

section \<open>The normalisers compute the documented rescaling\<close>

lemma clip_scalar_Fin: "clip_scalar lo hi (Fin x) = Fin (clip_real lo hi x)"
  by (simp add: clip_scalar_def clip_real_def isna_def Let_def min_def max_def)

lemma series_clip_Fin:
  "lower \<le> upper \<Longrightarrow> series_clip lower upper (map Fin xs) = map Fin (map (clip_real lower upper) xs)"
  by (simp add: series_clip_def clip_scalar_Fin)

lemma rescale_Fin:
  "hi \<noteq> lo \<Longrightarrow>
   fmul (fdiv (fsub (Fin x) (Fin lo)) (fsub (Fin hi) (Fin lo))) (Fin 100) = Fin (rescale lo hi x)"
  by (simp add: fsub_def rescale_def)

lemma rescale_NaN: "fmul (fdiv (fsub NaN m) d) (Fin 100) = NaN"
  by (simp add: fsub_def)

lemma normalize_growth_real: "normalize_growth (map Fin gs) = map Fin (growth_norm gs)"
proof (cases "gs = []")
  case True
  then show ?thesis
    by (simp add: normalize_growth_def growth_norm_def series_clip_def series_mul_scalar_def
        series_div_scalar_def series_sub_scalar_def Let_def)
next
  case False
  define cs where "cs = map (clip_real (- 50) 200) gs"
  have cl: "series_clip (- 50) 200 (map Fin gs) = map Fin cs"
    by (simp add: series_clip_Fin cs_def)
  have ne: "cs \<noteq> []" using False by (simp add: cs_def)
  have mn: "series_min (map Fin cs) = Fin (Min (set cs))"
    by (rule series_min_Fin [OF dropna_Fin ne])
  have mx: "series_max (map Fin cs) = Fin (Max (set cs))"
    by (rule series_max_Fin [OF dropna_Fin ne])
  show ?thesis
    unfolding normalize_growth_def growth_norm_def Let_def cl mn mx cs_def [symmetric]
    by (simp add: series_mul_scalar_def series_div_scalar_def series_sub_scalar_def rescale_Fin)
qed

lemma dropna_log_caps:
  "dropna (map (\<lambda>c. if 0 < c then Fin (log 10 c) else NaN) caps) = map Fin (known_logs caps)"
  by (induction caps) (simp_all add: dropna_def isna_def known_logs_def)

lemma known_logs_empty: "known_logs caps = [] \<Longrightarrow> c \<in> set caps \<Longrightarrow> \<not> 0 < c"
  by (auto simp: known_logs_def filter_empty_conv)

lemma normalize_market_cap_real: "normalize_market_cap (map Fin caps) = map Fin (cap_norm caps)"
proof -
  define lc where "lc = map (\<lambda>c. if 0 < c then Fin (log 10 c) else NaN) caps"
  have lc: "map np_log10 (series_replace (Fin 0) NaN (map Fin caps)) = lc"
    by (simp add: series_replace_def lc_def np_log10_def)
  have dn: "dropna lc = map Fin (known_logs caps)"
    unfolding lc_def by (rule dropna_log_caps)
  show ?thesis
  proof (cases "known_logs caps = []")
    case True
    have mn: "series_min lc = NaN" and mx: "series_max lc = NaN"
      using dn True by (simp_all add: series_min_empty series_max_empty)
    have all: "\<And>c. c \<in> set caps \<Longrightarrow> \<not> 0 < c"
      using known_logs_empty [OF True] .
    show ?thesis
      unfolding normalize_market_cap_def cap_norm_def Let_def lc mn mx
      using True all
      by (simp add: lc_def fillna_def series_mul_scalar_def series_div_scalar_def
          series_sub_scalar_def isna_def fsub_def)
  next
    case False
    have mn: "series_min lc = Fin (Min (set (known_logs caps)))"
      by (rule series_min_Fin [OF dn False])
    have mx: "series_max lc = Fin (Max (set (known_logs caps)))"
      by (rule series_max_Fin [OF dn False])
    show ?thesis
      unfolding normalize_market_cap_def cap_norm_def Let_def lc mn mx
      using False
      by (simp add: lc_def fillna_def series_mul_scalar_def series_div_scalar_def
          series_sub_scalar_def isna_def rescale_Fin rescale_NaN)
  qed
qed

section \<open>Blend, clip and renormalise\<close>

lemma length_cap_norm: "length (cap_norm caps) = length caps"
  by (simp add: cap_norm_def Let_def)

lemma length_growth_norm: "length (growth_norm gs) = length gs"
  by (simp add: growth_norm_def Let_def)

lemma length_blended_scores: "length (blended_scores cfg cs) = length cs"
  by (simp add: blended_scores_def length_cap_norm length_growth_norm)

lemma series_mul_scalar_Fin: "series_mul_scalar (map Fin xs) (Fin k) = map Fin (map (\<lambda>x. x * k) xs)"
  by (simp add: series_mul_scalar_def)

lemma series_add_Fin:
  "series_add (map Fin xs) (map Fin ys) = map Fin (map (\<lambda>(x, y). x + y) (zip xs ys))"
  by (auto simp: series_add_def zip_map_map)

lemma raw_scores_real: "raw_scores cfg cs = map Fin (blended_scores cfg cs)"
proof -
  have m: "map (\<lambda>r. Fin (f r)) cs = map Fin (map f cs)" for f :: "company_row \<Rightarrow> real"
    by simp
  show ?thesis
    unfolding raw_scores_def Let_def m normalize_market_cap_real normalize_growth_real
      series_mul_scalar_Fin series_add_Fin blended_scores_def
    by (simp add: list_eq_iff_nth_eq length_cap_norm length_growth_norm)
qed

lemma series_div_scalar_Fin:
  "t \<noteq> 0 \<Longrightarrow> series_div_scalar (map Fin xs) (Fin t) = map Fin (map (\<lambda>x. x / t) xs)"
  by (simp add: series_div_scalar_def)

lemma weights_real:
  assumes "sum_list s \<noteq> 0"
    and "sum_list (map (clip_real (min (min_weight cfg) (max_weight cfg)) (max (min_weight cfg) (max_weight cfg)))
           (map (\<lambda>x. x / sum_list s) s)) \<noteq> 0"
  shows "weights cfg (map Fin s) =
         map Fin (clip_renormalize (min (min_weight cfg) (max_weight cfg))
                    (max (min_weight cfg) (max_weight cfg)) s)"
proof -
  have c: "series_clip lower upper (map Fin xs) = map Fin (map (clip_real (min lower upper) (max lower upper)) xs)"
    for lower upper xs
    by (simp add: series_clip_def clip_scalar_Fin)
  show ?thesis
    unfolding weights_def Let_def series_sum_Fin series_div_scalar_Fin [OF assms(1)] c
      series_div_scalar_Fin [OF assms(2)] clip_renormalize_def ..
qed

lemma clip_real_lower: "lo \<le> hi \<Longrightarrow> lo \<le> clip_real lo hi x"
  by (simp add: clip_real_def)

lemma sum_list_pos_lower:
  assumes "xs \<noteq> []" and "0 < (lo::real)" and "\<And>x. x \<in> set xs \<Longrightarrow> lo \<le> x"
  shows "0 < sum_list xs"
  using assms
proof (induction xs)
  case Nil
  then show ?case by simp
next
  case (Cons x xs)
  have x: "0 < x" using Cons.prems(2) Cons.prems(3) [of x] by simp
  have "0 \<le> sum_list xs"
    by (rule sum_list_nonneg) (use Cons.prems(2,3) in force)
  with x show ?case by simp
qed

lemma clipped_sum_pos:
  assumes "s \<noteq> []" and "0 < lo" and "lo \<le> hi"
  shows "0 < sum_list (map (clip_real lo hi) (map f s))"
  by (rule sum_list_pos_lower [where lo = lo]) (use assms in \<open>auto simp: clip_real_lower\<close>)

lemma sum_list_clip_renormalize:
  assumes "sum_list (map (clip_real lo hi) (map (\<lambda>x. x / sum_list s) s)) \<noteq> 0"
  shows "sum_list (clip_renormalize lo hi s) = 1"
proof -
  have d: "sum_list (map (\<lambda>x. x / t) xs) = sum_list xs / t" for t :: real and xs
    by (induction xs) (simp_all add: add_divide_distrib)
  show ?thesis
    unfolding clip_renormalize_def Let_def d using assms by simp
qed

lemma clip_renormalize_pos:
  assumes "s \<noteq> []" and "0 < lo" and "lo \<le> hi" and "w \<in> set (clip_renormalize lo hi s)"
  shows "0 < w"
proof -
  let ?c = "map (clip_real lo hi) (map (\<lambda>x. x / sum_list s) s)"
  have S: "0 < sum_list ?c" by (rule clipped_sum_pos [OF assms(1-3)])
  from assms(4) obtain x where "x \<in> set ?c" and w: "w = x / sum_list ?c"
    by (auto simp: clip_renormalize_def Let_def)
  then have "lo \<le> x" using assms(3) by (auto simp: clip_real_lower)
  with assms(2) S show ?thesis by (simp add: w)
qed

lemma weights_zero_scores:
  assumes "\<And>x. x \<in> set s \<Longrightarrow> x = 0"
  shows "weights cfg (map Fin s) = map (\<lambda>_. NaN) s"
proof -
  have z: "sum_list s = 0" using assms by (induction s) auto
  have u: "series_div_scalar (map Fin s) (Fin 0) = map (\<lambda>_. NaN) s"
    using assms by (simp add: series_div_scalar_def)
  have c: "series_clip a b (map (\<lambda>_. NaN) s) = map (\<lambda>_. NaN) s" for a b
    by (simp add: series_clip_def clip_scalar_def isna_def)
  have d: "dropna (map (\<lambda>_. NaN) s) = []"
    by (simp add: dropna_def isna_def)
  show ?thesis
    unfolding weights_def Let_def series_sum_Fin z u c
    by (simp add: series_sum_def d py_sum_def series_div_scalar_def)
qed

section \<open>The final sort\<close>

lemma flt_irrefl: "\<not> flt x x"
  by (cases x) simp_all

lemma fle_total: "a \<noteq> NaN \<Longrightarrow> b \<noteq> NaN \<Longrightarrow> \<not> flt a b \<Longrightarrow> fle b a"
  by (cases a; cases b) (auto simp: fle_def)

lemma fle_trans: "fle a b \<Longrightarrow> fle b c \<Longrightarrow> fle a c"
  by (cases a; cases b; cases c) (auto simp: fle_def)

lemma fle_not_flt: "fle b a \<Longrightarrow> \<not> flt a b"
  by (cases a; cases b) (auto simp: fle_def)

lemma filter_insort_reverse:
  "filter (\<lambda>y. key y = k) (insort_reverse key x ys) = filter (\<lambda>y. key y = k) (x # ys)"
  by (induction ys) (auto simp: flt_irrefl)

lemma sort_reverse_stable:
  "filter (\<lambda>y. key y = k) (sort_reverse key xs) = filter (\<lambda>y. key y = k) xs"
proof (induction xs)
  case Nil
  then show ?case by (simp add: sort_reverse_def)
next
  case (Cons x xs)
  have "sort_reverse key (x # xs) = insort_reverse key x (sort_reverse key xs)"
    by (simp add: sort_reverse_def)
  then show ?case using Cons.IH by (simp add: filter_insort_reverse)
qed

lemma mset_insort_reverse: "mset (insort_reverse key x ys) = add_mset x (mset ys)"
  by (induction ys) simp_all

lemma mset_sort_reverse: "mset (sort_reverse key xs) = mset xs"
  by (induction xs) (simp_all add: sort_reverse_def mset_insort_reverse)

lemma set_sort_reverse: "set (sort_reverse key xs) = set xs"
  using mset_sort_reverse [of key xs] by (metis set_mset_mset)

lemma sorted_insort_reverse:
  assumes "sorted_wrt (\<lambda>a b. fle (key b) (key a)) ys"
    and "key x \<noteq> NaN" and "\<And>y. y \<in> set ys \<Longrightarrow> key y \<noteq> NaN"
  shows "sorted_wrt (\<lambda>a b. fle (key b) (key a)) (insort_reverse key x ys)"
  using assms
proof (induction ys)
  case Nil
  then show ?case by simp
next
  case (Cons y ys)
  show ?case
  proof (cases "flt (key x) (key y)")
    case True
    have xy: "fle (key x) (key y)" using True by (simp add: fle_def)
    have ih: "sorted_wrt (\<lambda>a b. fle (key b) (key a)) (insort_reverse key x ys)"
      using Cons by simp
    have "\<And>z. z \<in> set (insort_reverse key x ys) \<Longrightarrow> fle (key z) (key y)"
    proof -
      fix z assume "z \<in> set (insort_reverse key x ys)"
      then have "z \<in># mset (insort_reverse key x ys)" by simp
      then have "z = x \<or> z \<in> set ys" by (simp add: mset_insort_reverse)
      then show "fle (key z) (key y)" using xy Cons.prems(1) by auto
    qed
    with ih True show ?thesis by simp
  next
    case False
    have yx: "fle (key y) (key x)"
      using False Cons.prems(2) Cons.prems(3) [of y] by (simp add: fle_total)
    have "\<And>z. z \<in> set ys \<Longrightarrow> fle (key z) (key x)"
      using Cons.prems(1) yx by (auto intro: fle_trans)
    with yx False Cons.prems(1) show ?thesis by simp
  qed
qed

lemma sorted_sort_reverse:
  assumes "\<And>y. y \<in> set xs \<Longrightarrow> key y \<noteq> NaN"
  shows "sorted_wrt (\<lambda>a b. fle (key b) (key a)) (sort_reverse key xs)"
  using assms
proof (induction xs)
  case Nil
  then show ?case by (simp add: sort_reverse_def)
next
  case (Cons x xs)
  have s: "sort_reverse key (x # xs) = insort_reverse key x (sort_reverse key xs)"
    by (simp add: sort_reverse_def)
  show ?case
    unfolding s
    by (rule sorted_insort_reverse) (use Cons in \<open>auto simp: set_sort_reverse\<close>)
qed

lemma sort_reverse_all_NaN:
  assumes "\<And>y. y \<in> set xs \<Longrightarrow> key y = NaN"
  shows "sort_reverse key xs = xs"
  using assms
proof (induction xs)
  case Nil
  then show ?case by (simp add: sort_reverse_def)
next
  case (Cons x xs)
  have s: "sort_reverse key (x # xs) = insort_reverse key x (sort_reverse key xs)"
    by (simp add: sort_reverse_def)
  have "sort_reverse key xs = xs" using Cons by simp
  with s Cons.prems [of x] show ?case by (cases xs) simp_all
qed

lemma no_inversion_all_NaN:
  assumes "\<And>y. y \<in> set xs \<Longrightarrow> key y = NaN"
  shows "sorted_wrt (\<lambda>a b. \<not> flt (key a) (key b)) xs"
  using assms by (induction xs) simp_all

lemma no_inversion_of_sorted:
  "sorted_wrt (\<lambda>a b. fle (key b) (key a)) xs \<Longrightarrow> sorted_wrt (\<lambda>a b. \<not> flt (key a) (key b)) xs"
  by (erule sorted_wrt_mono_rel [rotated]) (simp add: fle_not_flt)

section \<open>Constituents\<close>

lemma length_weights: "length (weights cfg s) = length s"
  by (simp add: weights_def Let_def series_div_scalar_def series_clip_def)

lemma length_raw_scores: "length (raw_scores cfg cs) = length cs"
  by (simp add: raw_scores_real length_blended_scores)

lemma length_clip_renormalize: "length (clip_renormalize lo hi s) = length s"
  by (simp add: clip_renormalize_def Let_def)

lemma map_weight_constituents:
  "map weight (constituents cfg cs) = weights cfg (raw_scores cfg cs)"
  by (simp add: constituents_def Let_def list_eq_iff_nth_eq length_weights length_raw_scores
      make_constituent_def)

lemma map_raw_score_constituents:
  "map raw_score (constituents cfg cs) = raw_scores cfg cs"
  by (simp add: constituents_def Let_def list_eq_iff_nth_eq length_weights length_raw_scores
      make_constituent_def)

lemma constituents_documented:
  assumes "weights cfg (raw_scores cfg cs) =
           map Fin (clip_renormalize (min_weight cfg) (max_weight cfg) (blended_scores cfg cs))"
  shows "constituents cfg cs = documented_constituents cfg cs"
  unfolding constituents_def documented_constituents_def Let_def assms
  unfolding raw_scores_real
  by (simp add: list_eq_iff_nth_eq length_blended_scores length_clip_renormalize)

lemma positive_total_iff:
  "flt (Fin 0) (series_sum (raw_scores cfg cs)) \<longleftrightarrow> 0 < sum_list (blended_scores cfg cs)"
  by (simp add: raw_scores_real series_sum_Fin)

lemma weights_nonzero_total:
  assumes "sum_list (blended_scores cfg cs) \<noteq> 0"
    and "0 < min_weight cfg" and "0 < max_weight cfg"
  shows "weights cfg (raw_scores cfg cs) =
         map Fin (clip_renormalize (min (min_weight cfg) (max_weight cfg))
                    (max (min_weight cfg) (max_weight cfg)) (blended_scores cfg cs))"
proof -
  have ne: "blended_scores cfg cs \<noteq> []" using assms(1) by auto
  have "0 < sum_list (map (clip_real (min (min_weight cfg) (max_weight cfg))
                 (max (min_weight cfg) (max_weight cfg)))
            (map (\<lambda>x. x / sum_list (blended_scores cfg cs)) (blended_scores cfg cs)))"
    by (rule clipped_sum_pos [OF ne]) (use assms(2,3) in auto)
  then show ?thesis
    unfolding raw_scores_real by (intro weights_real assms(1)) simp
qed

lemma weights_nonzero_total_pos:
  assumes "sum_list (blended_scores cfg cs) \<noteq> 0"
    and "0 < min_weight cfg" and "0 < max_weight cfg"
    and "w \<in> set (weights cfg (raw_scores cfg cs))"
  shows "\<exists>r. w = Fin r \<and> 0 < r"
proof -
  have ne: "blended_scores cfg cs \<noteq> []" using assms(1) by auto
  from assms(4) obtain r where w: "w = Fin r"
    and r: "r \<in> set (clip_renormalize (min (min_weight cfg) (max_weight cfg))
                    (max (min_weight cfg) (max_weight cfg)) (blended_scores cfg cs))"
    unfolding weights_nonzero_total [OF assms(1-3)] by auto
  have "0 < r"
    by (rule clip_renormalize_pos [OF ne _ _ r]) (use assms(2,3) in auto)
  with w show ?thesis by simp
qed

lemma set_calculate_weights:
  "set (calculate_weights cfg cs) = set (constituents cfg cs)"
  by (cases cs) (simp_all add: calculate_weights_def set_sort_reverse constituents_def Let_def)

lemma mset_calculate_weights:
  "mset (calculate_weights cfg cs) = mset (constituents cfg cs)"
  by (cases cs) (simp_all add: calculate_weights_def mset_sort_reverse constituents_def Let_def)

lemma calculate_weights_sort:
  "calculate_weights cfg cs = sort_reverse weight (constituents cfg cs)"
  by (cases cs) (simp_all add: calculate_weights_def constituents_def Let_def sort_reverse_def)

section \<open>Non-negative scores\<close>

lemma rescale_nonneg: "lo \<le> x \<Longrightarrow> lo < hi \<Longrightarrow> 0 \<le> rescale lo hi x"
  by (simp add: rescale_def)

lemma Min_less_Max:
  assumes "xs \<noteq> []" and "Max (set xs) \<noteq> Min (set (xs::real list))"
  shows "Min (set xs) < Max (set xs)"
proof -
  obtain x where "x \<in> set xs" using assms(1) by (cases xs) auto
  then have "Min (set xs) \<le> x" and "x \<le> Max (set xs)" by simp_all
  with assms(2) show ?thesis by simp
qed

lemma cap_norm_nonneg:
  assumes "x \<in> set (cap_norm caps)"
  shows "0 \<le> x"
proof (cases "known_logs caps = []")
  case True
  with assms show ?thesis by (auto simp: cap_norm_def)
next
  case ne: False
  show ?thesis
  proof (cases "Max (set (known_logs caps)) = Min (set (known_logs caps))")
    case True
    with assms ne show ?thesis by (auto simp: cap_norm_def)
  next
    case False
    from assms ne False obtain c where c: "c \<in> set caps"
      and x: "x = (if 0 < c then rescale (Min (set (known_logs caps))) (Max (set (known_logs caps))) (log 10 c) else 0)"
      by (auto simp: cap_norm_def Let_def)
    show ?thesis
    proof (cases "0 < c")
      case True
      then have "log 10 c \<in> set (known_logs caps)" using c by (simp add: known_logs_def)
      then have "Min (set (known_logs caps)) \<le> log 10 c" by simp
      with Min_less_Max [OF ne False] True show ?thesis by (simp add: x rescale_nonneg)
    next
      case False
      then show ?thesis by (simp add: x)
    qed
  qed
qed

lemma growth_norm_nonneg:
  assumes "x \<in> set (growth_norm gs)"
  shows "0 \<le> x"
proof -
  define cs where "cs = map (clip_real (- 50) 200) gs"
  have ne: "cs \<noteq> []" using assms by (auto simp: cs_def growth_norm_def Let_def split: if_splits)
  show ?thesis
  proof (cases "Max (set cs) = Min (set cs)")
    case True
    with assms show ?thesis by (auto simp: growth_norm_def Let_def cs_def)
  next
    case False
    from assms False obtain c where c: "c \<in> set cs"
      and x: "x = rescale (Min (set cs)) (Max (set cs)) c"
      unfolding growth_norm_def Let_def cs_def [symmetric] by auto
    from c have "Min (set cs) \<le> c" by simp
    with Min_less_Max [OF ne False] show ?thesis by (simp add: x rescale_nonneg)
  qed
qed

lemma blended_scores_nonneg:
  assumes "list_all (\<lambda>r. 0 \<le> row_space_revenue_pct r) cs"
    and "0 \<le> w_space_rev cfg" and "0 \<le> w_market_cap cfg" and "0 \<le> w_growth cfg"
    and "x \<in> set (blended_scores cfg cs)"
  shows "0 \<le> x"
proof -
  from assms(5) obtain r c g
    where z: "(r, c, g) \<in> set (zip cs (zip (cap_norm (map row_market_cap cs))
                                 (growth_norm (map row_revenue_growth_rate cs))))"
      and x: "x = row_space_revenue_pct r * w_space_rev cfg + c * w_market_cap cfg + g * w_growth cfg"
    unfolding blended_scores_def by auto
  have r: "r \<in> set cs" using z by (rule set_zip_leftD)
  have cg: "(c, g) \<in> set (zip (cap_norm (map row_market_cap cs))
                          (growth_norm (map row_revenue_growth_rate cs)))"
    using z by (rule set_zip_rightD)
  have c: "c \<in> set (cap_norm (map row_market_cap cs))" using cg by (rule set_zip_leftD)
  have g: "g \<in> set (growth_norm (map row_revenue_growth_rate cs))" using cg by (rule set_zip_rightD)
  have "0 \<le> row_space_revenue_pct r" using assms(1) r by (simp add: list_all_iff)
  moreover have "0 \<le> c" using c by (rule cap_norm_nonneg)
  moreover have "0 \<le> g" using g by (rule growth_norm_nonneg)
  ultimately show ?thesis using assms(2-4) by (simp add: x)
qed

lemma map_ticker_constituents:
  "map ticker (constituents cfg cs) = map row_ticker cs"
  by (simp add: constituents_def Let_def list_eq_iff_nth_eq length_weights length_raw_scores
      make_constituent_def)

section \<open>Clipping twice, total weight, single candidate\<close>

lemma clip_scalar_idem: "clip_scalar lo hi (clip_scalar lo hi x) = clip_scalar lo hi x"
  by (cases x) (auto simp: clip_scalar_def isna_def Let_def)

lemma series_clip_idem: "series_clip a b (series_clip a b xs) = series_clip a b xs"
  by (simp add: series_clip_def clip_scalar_idem)

lemma normalize_growth_nth:
  assumes "i < length xs"
  shows "normalize_growth xs ! i =
         (if feq (series_max (series_clip (- 50) 200 xs)) (series_min (series_clip (- 50) 200 xs))
          then Fin 50
          else fmul (fdiv (fsub (clip_scalar (- 50) 200 (xs ! i)) (series_min (series_clip (- 50) 200 xs)))
                  (fsub (series_max (series_clip (- 50) 200 xs)) (series_min (series_clip (- 50) 200 xs))))
                 (Fin 100))"
  using assms
  by (simp add: normalize_growth_def Let_def series_mul_scalar_def series_div_scalar_def
      series_sub_scalar_def series_clip_def)

lemma py_sum_mset_Fin:
  assumes "mset ws = mset (map Fin rs)"
  shows "py_sum ws = Fin (sum_list rs)"
proof -
  define proj where "proj = (\<lambda>w. case w of Fin r \<Rightarrow> r | _ \<Rightarrow> 0)"
  have "set ws = set (map Fin rs)" using assms by (rule mset_eq_setD)
  then have "\<And>w. w \<in> set ws \<Longrightarrow> Fin (proj w) = w" by (auto simp: proj_def)
  then have "map (\<lambda>w. Fin (proj w)) ws = ws" by (rule map_idI)
  then have ws: "ws = map Fin (map proj ws)" by (simp add: comp_def)
  have p: "map proj (map Fin rs) = rs"
    by (simp add: proj_def comp_def)
  have "mset (map proj ws) = image_mset proj (mset ws)" by simp
  also have "\<dots> = image_mset proj (mset (map Fin rs))" by (simp only: assms)
  also have "\<dots> = mset (map proj (map Fin rs))" by (simp only: mset_map)
  finally have "mset (map proj ws) = mset rs" by (simp only: p)
  then have "sum_list (map proj ws) = sum_list rs"
    by (metis sum_mset_sum_list)
  then show ?thesis by (subst ws) (simp only: py_sum_Fin)
qed

lemma total_weight_one:
  assumes "sum_list (blended_scores cfg cs) \<noteq> 0"
    and "0 < min_weight cfg" and "0 < max_weight cfg"
  shows "py_sum (map weight (calculate_weights cfg cs)) = Fin 1"
proof -
  let ?lo = "min (min_weight cfg) (max_weight cfg)"
  let ?hi = "max (min_weight cfg) (max_weight cfg)"
  let ?s = "blended_scores cfg cs"
  have ne: "?s \<noteq> []" using assms(1) by auto
  have "0 < sum_list (map (clip_real ?lo ?hi) (map (\<lambda>x. x / sum_list ?s) ?s))"
    by (rule clipped_sum_pos [OF ne]) (use assms(2,3) in auto)
  then have one: "sum_list (clip_renormalize ?lo ?hi ?s) = 1"
    by (intro sum_list_clip_renormalize) simp
  have "mset (map weight (calculate_weights cfg cs)) = mset (map weight (constituents cfg cs))"
    by (simp add: mset_calculate_weights)
  also have "\<dots> = mset (map Fin (clip_renormalize ?lo ?hi ?s))"
    by (simp only: map_weight_constituents weights_nonzero_total [OF assms])
  finally show ?thesis using one by (simp add: py_sum_mset_Fin)
qed

lemma single_candidate_weight_one:
  assumes "blended_scores cfg [r] \<noteq> [0]"
    and "0 < min_weight cfg" and "0 < max_weight cfg"
  shows "map weight (calculate_weights cfg [r]) = [Fin 1]"
proof -
  obtain s where s: "blended_scores cfg [r] = [s]"
    using length_blended_scores [of cfg "[r]"] by (cases "blended_scores cfg [r]") auto
  with assms(1) have nz: "sum_list (blended_scores cfg [r]) \<noteq> 0" by simp
  have lo: "0 < clip_real (min (min_weight cfg) (max_weight cfg))
                  (max (min_weight cfg) (max_weight cfg)) 1"
    using assms(2,3) by (auto simp: clip_real_def min_def max_def)
  have "weights cfg (raw_scores cfg [r]) = [Fin 1]"
    unfolding weights_nonzero_total [OF nz assms(2,3)]
    using nz lo by (simp add: s clip_renormalize_def Let_def)
  then have "map weight (constituents cfg [r]) = [Fin 1]"
    by (simp only: map_weight_constituents)
  moreover have "calculate_weights cfg [r] = constituents cfg [r]"
  proof -
    have "length (constituents cfg [r]) = 1"
      by (simp add: constituents_def Let_def length_raw_scores length_weights)
    then obtain c where "constituents cfg [r] = [c]"
      by (cases "constituents cfg [r]") auto
    then show ?thesis by (simp add: calculate_weights_sort sort_reverse_def)
  qed
  ultimately show ?thesis by simp
qed

section \<open>Rounding in the constructor\<close>

lemma round_half_even_near: "\<bar>of_int (round_half_even r) - r\<bar> \<le> 1 / 2"
  unfolding round_half_even_def Let_def by (auto simp: abs_if) linarith+

lemma round53_error: "\<bar>round53 x - x\<bar> \<le> \<bar>x\<bar> / 2 ^ 53"
proof (cases "x = 0")
  case True
  then show ?thesis by (simp add: round53_def)
next
  case False
  define e where "e = \<lfloor>log 2 \<bar>x\<bar>\<rfloor>"
  define q :: real where "q = 2 powr (of_int e - 52)"
  define n where "n = round_half_even (x / q)"
  have qpos: "0 < q" by (simp add: q_def)
  have r: "round53 x = of_int n * q"
    using False by (simp add: round53_def Let_def e_def q_def n_def)
  have "of_int e \<le> log 2 \<bar>x\<bar>" by (simp add: e_def)
  then have "2 powr (of_int e) \<le> 2 powr (log 2 \<bar>x\<bar>)" by (simp add: powr_mono)
  then have lo: "2 powr (of_int e) \<le> \<bar>x\<bar>" using False by simp
  have q2: "q = 2 powr (of_int e) / 2 ^ 52"
    by (simp add: q_def powr_diff)
  have "\<bar>of_int n * q - x\<bar> = q * \<bar>of_int n - x / q\<bar>"
    using qpos by (simp add: abs_mult [symmetric] field_simps del: abs_mult)
  also have "\<dots> \<le> q * (1 / 2)"
    using round_half_even_near [of "x / q"] qpos unfolding n_def by (intro mult_left_mono) auto
  also have "\<dots> = 2 powr (of_int e) / 2 ^ 53" by (simp add: q2)
  also have "\<dots> \<le> \<bar>x\<bar> / 2 ^ 53" using lo by (simp add: divide_right_mono)
  finally show ?thesis by (simp add: r)
qed

lemma round53_error_numeral: "\<bar>round53 x - x\<bar> \<le> \<bar>x\<bar> / 9007199254740992"
  using round53_error [of x] by simp

lemma round53_nonneg_bounds:
  assumes "0 \<le> x"
  shows "x - x / 9007199254740992 \<le> round53 x" and "round53 x \<le> x + x / 9007199254740992"
  using round53_error_numeral [of x] assms by argo+

lemma round53_abs_bounds:
  shows "\<bar>x\<bar> - \<bar>x\<bar> / 9007199254740992 \<le> \<bar>round53 x\<bar>"
    and "\<bar>round53 x\<bar> \<le> \<bar>x\<bar> + \<bar>x\<bar> / 9007199254740992"
  using round53_error_numeral [of x] by argo+

lemma tolerance_bounds:
  "10009999999 / 1000000000000000 \<le> round53 (atol + round53 (rtol * \<bar>1\<bar>))"
  "round53 (atol + round53 (rtol * \<bar>1\<bar>)) \<le> 10010000001 / 1000000000000000"
proof -
  have r: "1 / 100000 - (1 / 100000) / 9007199254740992 \<le> rtol"
    "rtol \<le> 1 / 100000 + (1 / 100000) / 9007199254740992"
    unfolding rtol_def by (rule round53_nonneg_bounds, simp)+
  have a: "1 / 100000000 - (1 / 100000000) / 9007199254740992 \<le> atol"
    "atol \<le> 1 / 100000000 + (1 / 100000000) / 9007199254740992"
    unfolding atol_def by (rule round53_nonneg_bounds, simp)+
  have r0: "0 \<le> rtol" using r(1) by argo
  have r2: "rtol - rtol / 9007199254740992 \<le> round53 rtol"
    "round53 rtol \<le> rtol + rtol / 9007199254740992"
    by (rule round53_nonneg_bounds [OF r0])+
  have s0: "0 \<le> atol + round53 rtol" using a(1) r2(1) r(1) by argo
  have t: "(atol + round53 rtol) - (atol + round53 rtol) / 9007199254740992
             \<le> round53 (atol + round53 rtol)"
    "round53 (atol + round53 rtol)
       \<le> (atol + round53 rtol) + (atol + round53 rtol) / 9007199254740992"
    by (rule round53_nonneg_bounds [OF s0])+
  have one: "rtol * \<bar>1\<bar> = rtol" by simp
  show "10009999999 / 1000000000000000 \<le> round53 (atol + round53 (rtol * \<bar>1\<bar>))"
    unfolding one using r a r2 t by argo
  show "round53 (atol + round53 (rtol * \<bar>1\<bar>)) \<le> 10010000001 / 1000000000000000"
    unfolding one using r a r2 t by argo
qed

lemma total_bounds:
  assumes "0 \<le> a" and "0 \<le> b" and "0 \<le> c"
  shows "(a + b + c) - 3 * (a + b + c) / 9007199254740992 \<le> round53 (round53 (a + b) + c)"
    and "round53 (round53 (a + b) + c) \<le> (a + b + c) + 3 * (a + b + c) / 9007199254740992"
proof -
  have p0: "0 \<le> a + b" using assms by simp
  have p: "(a + b) - (a + b) / 9007199254740992 \<le> round53 (a + b)"
    "round53 (a + b) \<le> (a + b) + (a + b) / 9007199254740992"
    by (rule round53_nonneg_bounds [OF p0])+
  have t0: "0 \<le> round53 (a + b) + c" using p(1) p0 assms(3) by argo
  have t: "(round53 (a + b) + c) - (round53 (a + b) + c) / 9007199254740992
             \<le> round53 (round53 (a + b) + c)"
    "round53 (round53 (a + b) + c)
       \<le> (round53 (a + b) + c) + (round53 (a + b) + c) / 9007199254740992"
    by (rule round53_nonneg_bounds [OF t0])+
  show "(a + b + c) - 3 * (a + b + c) / 9007199254740992 \<le> round53 (round53 (a + b) + c)"
    using p t assms by argo
  show "round53 (round53 (a + b) + c) \<le> (a + b + c) + 3 * (a + b + c) / 9007199254740992"
    using p t assms by argo
qed

lemma init_accepts:
  assumes "0 \<le> a" and "0 \<le> b" and "0 \<le> c"
    and "\<bar>a + b + c - 1\<bar> \<le> 10009999 / 1000000000000"
  shows "init a b c mx mn
         = Inr \<lparr>w_space_rev = a, w_market_cap = b, w_growth = c, max_weight = mx, min_weight = mn\<rparr>"
proof -
  define total where "total = round53 (round53 (a + b) + c)"
  have tb: "(a + b + c) - 3 * (a + b + c) / 9007199254740992 \<le> total"
    "total \<le> (a + b + c) + 3 * (a + b + c) / 9007199254740992"
    unfolding total_def by (rule total_bounds [OF assms(1-3)])+
  have d: "\<bar>round53 (total - 1)\<bar> \<le> \<bar>total - 1\<bar> + \<bar>total - 1\<bar> / 9007199254740992"
    by (rule round53_abs_bounds)
  have "\<bar>total - 1\<bar> \<le> 10009999001 / 1000000000000000"
    using tb assms(4) by argo
  then have "\<bar>round53 (total - 1)\<bar> \<le> 10009999999 / 1000000000000000"
    using d by argo
  then have "np_isclose total 1"
    using tolerance_bounds(1) unfolding np_isclose_def by argo
  then show ?thesis by (simp add: init_def total_def Let_def)
qed

lemma init_rejects:
  assumes "0 \<le> a" and "0 \<le> b" and "0 \<le> c"
    and "10010001 / 1000000000000 \<le> \<bar>a + b + c - 1\<bar>"
  shows "init a b c mx mn = Inl ValueError"
proof -
  define total where "total = round53 (round53 (a + b) + c)"
  have tb: "(a + b + c) - 3 * (a + b + c) / 9007199254740992 \<le> total"
    "total \<le> (a + b + c) + 3 * (a + b + c) / 9007199254740992"
    unfolding total_def by (rule total_bounds [OF assms(1-3)])+
  have d: "\<bar>total - 1\<bar> - \<bar>total - 1\<bar> / 9007199254740992 \<le> \<bar>round53 (total - 1)\<bar>"
    by (rule round53_abs_bounds)
  have s0: "0 \<le> a + b + c" using assms by simp
  have "10010000999 / 1000000000000000 \<le> \<bar>total - 1\<bar>"
    using tb assms(4) s0 by argo
  then have "10010000001 / 1000000000000000 < \<bar>round53 (total - 1)\<bar>"
    using d by argo
  then have "\<not> np_isclose total 1"
    using tolerance_bounds(2) unfolding np_isclose_def by argo
  then show ?thesis by (simp add: init_def total_def Let_def)
qed

lemma round53_eval:
  fixes k :: nat
  assumes "1 / 2 ^ k \<le> \<bar>x\<bar>" and "\<bar>x\<bar> < 2 / 2 ^ k"
  shows "round53 x = of_int (round_half_even (x * 2 ^ (52 + k))) / 2 ^ (52 + k)"
proof -
  have x0: "x \<noteq> 0" and xpos: "0 < \<bar>x\<bar>"
    using assms(1) by (auto simp: abs_if split: if_splits intro: less_le_trans [of 0 "1 / 2 ^ k"])
  have p: "2 powr (- real k) = 1 / 2 ^ k"
    by (simp add: powr_minus powr_realpow divide_inverse)
  have p1: "2 powr (1 - real k) = 2 / 2 ^ k"
  proof -
    have "2 powr (1 + - real k) = 2 powr 1 * 2 powr (- real k)" by (rule powr_add)
    then show ?thesis by (simp only: p) simp
  qed
  have "- real k \<le> log 2 \<bar>x\<bar>"
    using assms(1) xpos by (simp add: le_log_iff p)
  moreover have "log 2 \<bar>x\<bar> < 1 - real k"
    using assms(2) xpos by (simp add: log_less_iff p1)
  ultimately have e: "\<lfloor>log 2 \<bar>x\<bar>\<rfloor> = - int k"
    by (simp add: floor_eq_iff)
  have q: "(2::real) powr (of_int (- int k) - 52) = 1 / 2 ^ (52 + k)"
  proof -
    have h: "of_int (- int k) - (52::real) = - real (52 + k)" by simp
    have "2 powr (- real (52 + k)) = inverse (2 powr real (52 + k))" by (rule powr_minus)
    also have "\<dots> = inverse (2 ^ (52 + k))"
    proof -
      have "2 powr real (52 + k) = (2::real) ^ (52 + k)" by (rule powr_realpow) simp
      then show ?thesis by (simp only:)
    qed
    finally show ?thesis by (simp only: h divide_inverse mult_1)
  qed
  have "round53 x = of_int (round_half_even (x / 2 powr (of_int \<lfloor>log 2 \<bar>x\<bar>\<rfloor> - 52)))
                    * 2 powr (of_int \<lfloor>log 2 \<bar>x\<bar>\<rfloor> - 52)"
    using x0 by (simp add: round53_def Let_def)
  also have "\<dots> = of_int (round_half_even (x / (1 / 2 ^ (52 + k)))) * (1 / 2 ^ (52 + k))"
    by (simp only: e q)
  also have "\<dots> = of_int (round_half_even (x * 2 ^ (52 + k))) / 2 ^ (52 + k)"
    by simp
  finally show ?thesis .
qed

lemma rtol_value: "rtol = 5902958103587057 / 2 ^ 69"
  unfolding rtol_def
  by (subst round53_eval [where k = 17]) (simp_all add: round_half_even_def Let_def)

lemma atol_value: "atol = 6044629098073146 / 2 ^ 79"
  unfolding atol_def
  by (subst round53_eval [where k = 27]) (simp_all add: round_half_even_def Let_def)

lemma tolerance_value: "round53 (atol + round53 (rtol * \<bar>1\<bar>)) = 5908861061690644 / 2 ^ 69"
proof -
  have r: "round53 (rtol * \<bar>1\<bar>) = 5902958103587057 / 2 ^ 69"
    unfolding rtol_value
    by (subst round53_eval [where k = 17]) (simp_all add: round_half_even_def Let_def)
  show ?thesis
    unfolding r atol_value
    by (subst round53_eval [where k = 17]) (simp_all add: round_half_even_def Let_def)
qed

lemma init_rounding_edge:
  "\<bar>4503644708402765 / 2 ^ 52 + 3 / 2 ^ 54 + 0 - (1::real)\<bar> \<le> 1001 / 100000000
   \<and> init (4503644708402765 / 2 ^ 52) (3 / 2 ^ 54) 0 mx mn = Inl ValueError"
proof -
  have s1: "round53 (4503644708402765 / 2 ^ 52 + 3 / 2 ^ 54) = 4503644708402766 / 2 ^ 52"
    by (subst round53_eval [where k = 0]) (simp_all add: round_half_even_def Let_def)
  have s2: "round53 (4503644708402766 / 2 ^ 52 + 0) = 4503644708402766 / 2 ^ 52"
    by (subst round53_eval [where k = 0]) (simp_all add: round_half_even_def Let_def)
  have s3: "round53 (4503644708402766 / 2 ^ 52 - 1) = 45081032270 / 2 ^ 52"
    by (subst round53_eval [where k = 17]) (simp_all add: round_half_even_def Let_def)
  have "\<not> np_isclose (4503644708402766 / 2 ^ 52) 1"
    unfolding np_isclose_def s3 tolerance_value by simp
  then have "init (4503644708402765 / 2 ^ 52) (3 / 2 ^ 54) 0 mx mn = Inl ValueError"
    unfolding init_def Let_def s1 s2 by simp
  then show ?thesis by simp
qed

section \<open>Evaluation at concrete inputs\<close>

lemmas eval_defs =
  calculate_weights_def constituents_def weights_def raw_scores_def
  normalize_market_cap_def normalize_growth_def series_clip_def clip_scalar_def
  series_min_def series_max_def dropna_def isna_def series_replace_def np_log10_def
  fillna_def series_mul_scalar_def series_div_scalar_def series_sub_scalar_def
  series_add_def series_sum_def py_sum_def fsub_def make_constituent_def
  sort_reverse_def fmin2_def fmax2_def Let_def company_def exposure_only_def
  scenario_config_def scenario_companies_def

lemma log10_1e9: "log 10 1000000000 = 9"
proof -
  have "(1000000000::real) = 10 powr 9" by simp
  then show ?thesis by (simp only: log_powr_cancel)
qed

lemma log10_1e11: "log 10 100000000000 = 11"
proof -
  have "(100000000000::real) = 10 powr 11" by simp
  then show ?thesis by (simp only: log_powr_cancel)
qed

lemma log10_1e7: "log 10 10000000 = 7"
proof -
  have "(10000000::real) = 10 powr 7" by simp
  then show ?thesis by (simp only: log_powr_cancel)
qed

section \<open>The claims\<close>

subsection \<open>C1: the final weights sum to 1\<close>

text \<open>
  Claim C1 states that for every non-empty candidate set and every configuration
  whose factor weights sum to 1.0, the final weights of \<open>calculate_weights\<close> sum
  to 1.0 within 1e-6. Whenever the raw scores have a non-zero total and the position
  bounds are positive, the total is exactly 1 (lemma \<open>total_weight_one\<close>). The
  code has no guard for a zero total: with the accepted configuration (1, 0, 0) and
  two candidates of exposure 0, both raw scores are 0, both unconstrained weights
  are \<open>0 / 0\<close>, and the weights and their sum are NaN.
\<close>

theorem total_weight_nan_at_zero_total:
  "init 1 0 0 0.15 0.01 = Inr exposure_only
   \<and> map raw_score (calculate_weights exposure_only [company ''A'' 0 0 10, company ''B'' 0 0 20])
       = [Fin 0, Fin 0]
   \<and> map weight (calculate_weights exposure_only [company ''A'' 0 0 10, company ''B'' 0 0 20])
       = [NaN, NaN]
   \<and> py_sum (map weight
         (calculate_weights exposure_only [company ''A'' 0 0 10, company ''B'' 0 0 20])) = NaN"
proof -
  have "init 1 0 0 0.15 0.01 = Inr exposure_only"
    using init_accepts [of 1 0 0 "0.15" "0.01"] by (simp add: exposure_only_def)
  then show ?thesis by (simp add: eval_defs)
qed

subsection \<open>C2: all raw scores non-positive\<close>

text \<open>
  Claim C2 states that when every raw blended score is non-positive,
  \<open>calculate_weights\<close> takes an explicit fallback and never returns a NaN or
  infinite weight or raw score. The code has no fallback: with the accepted
  configuration (0.5, 0.5, 0) and three candidates of exposure 0 and market cap 0,
  every raw score is 0 and every returned weight is NaN.
\<close>

theorem no_fallback_at_zero_scores:
  "init 0.5 0.5 0 0.15 0.01
     = Inr \<lparr>w_space_rev = 0.5, w_market_cap = 0.5, w_growth = 0,
            max_weight = 0.15, min_weight = 0.01\<rparr>
   \<and> map raw_score
        (calculate_weights
           \<lparr>w_space_rev = 0.5, w_market_cap = 0.5, w_growth = 0,
            max_weight = 0.15, min_weight = 0.01\<rparr>
           [company ''A'' 0 0 10, company ''B'' 0 0 20, company ''C'' 0 0 30])
       = [Fin 0, Fin 0, Fin 0]
   \<and> map weight
        (calculate_weights
           \<lparr>w_space_rev = 0.5, w_market_cap = 0.5, w_growth = 0,
            max_weight = 0.15, min_weight = 0.01\<rparr>
           [company ''A'' 0 0 10, company ''B'' 0 0 20, company ''C'' 0 0 30])
       = [NaN, NaN, NaN]"
proof -
  have "init 0.5 0.5 0 0.15 0.01
     = Inr \<lparr>w_space_rev = 0.5, w_market_cap = 0.5, w_growth = 0,
            max_weight = 0.15, min_weight = 0.01\<rparr>"
    using init_accepts [of "0.5" "0.5" 0 "0.15" "0.01"] by simp
  then show ?thesis by (simp add: eval_defs)
qed

subsection \<open>C3: the constructor's check of the factor weights\<close>

text \<open>
  Claim C3, as amended: the constructor raises \<open>ValueError\<close> exactly when the
  \<^verbatim>\<open>float64\<close> sum of the three factor weights, added from left to right, is
  further from 1.0 than the default tolerance of \<open>np.isclose\<close>, which is
  \<open>atol + rtol * 1.0\<close> evaluated in \<^verbatim>\<open>float64\<close>: 5908861061690644 / 2^69, about
  1.001e-5 and not 1e-9; otherwise it returns the configuration with the five
  parameters stored unchanged. For non-negative weights it therefore raises
  whenever their exact sum differs from 1.0 by at least 1.0010001e-5, and succeeds
  whenever it differs by at most 1.0009999e-5; between these two margins the
  outcome depends on the rounding of the sum (lemma \<open>init_rounding_edge\<close>). In
  particular every such triple summing to 0.9 (up to 0.001) is rejected and every
  such triple summing to 1.0 is accepted. The constructor takes no company data.
\<close>

theorem init_tolerance:
  "(init a b c mx mn = Inl ValueError)
     = (5908861061690644 / 2 ^ 69 < \<bar>round53 (round53 (round53 (a + b) + c) - 1)\<bar>)
   \<and> (init a b c mx mn
        = Inr \<lparr>w_space_rev = a, w_market_cap = b, w_growth = c, max_weight = mx, min_weight = mn\<rparr>)
       = (\<bar>round53 (round53 (round53 (a + b) + c) - 1)\<bar> \<le> 5908861061690644 / 2 ^ 69)
   \<and> (0 \<le> a \<and> 0 \<le> b \<and> 0 \<le> c \<and> 10010001 / 1000000000000 \<le> \<bar>a + b + c - 1\<bar>
        \<longrightarrow> init a b c mx mn = Inl ValueError)
   \<and> (0 \<le> a \<and> 0 \<le> b \<and> 0 \<le> c \<and> \<bar>a + b + c - 1\<bar> \<le> 10009999 / 1000000000000
        \<longrightarrow> init a b c mx mn
            = Inr \<lparr>w_space_rev = a, w_market_cap = b, w_growth = c,
                   max_weight = mx, min_weight = mn\<rparr>)
   \<and> (0 \<le> a \<and> 0 \<le> b \<and> 0 \<le> c \<and> \<bar>a + b + c - 9 / 10\<bar> \<le> 1 / 1000
        \<longrightarrow> init a b c mx mn = Inl ValueError)"
proof -
  have e1: "(init a b c mx mn = Inl ValueError)
     = (5908861061690644 / 2 ^ 69 < \<bar>round53 (round53 (round53 (a + b) + c) - 1)\<bar>)"
    unfolding init_def Let_def np_isclose_def tolerance_value by (simp add: not_le)
  have e2: "(init a b c mx mn
        = Inr \<lparr>w_space_rev = a, w_market_cap = b, w_growth = c, max_weight = mx, min_weight = mn\<rparr>)
       = (\<bar>round53 (round53 (round53 (a + b) + c) - 1)\<bar> \<le> 5908861061690644 / 2 ^ 69)"
    unfolding init_def Let_def np_isclose_def tolerance_value by simp
  have r: "init a b c mx mn = Inl ValueError"
    if "0 \<le> a \<and> 0 \<le> b \<and> 0 \<le> c \<and> 10010001 / 1000000000000 \<le> \<bar>a + b + c - 1\<bar>"
    using that by (intro init_rejects) simp_all
  have s: "init a b c mx mn
            = Inr \<lparr>w_space_rev = a, w_market_cap = b, w_growth = c,
                   max_weight = mx, min_weight = mn\<rparr>"
    if "0 \<le> a \<and> 0 \<le> b \<and> 0 \<le> c \<and> \<bar>a + b + c - 1\<bar> \<le> 10009999 / 1000000000000"
    using that by (intro init_accepts) simp_all
  have n: "init a b c mx mn = Inl ValueError"
    if h: "0 \<le> a \<and> 0 \<le> b \<and> 0 \<le> c \<and> \<bar>a + b + c - 9 / 10\<bar> \<le> 1 / 1000"
  proof -
    have "10010001 / 1000000000000 \<le> \<bar>a + b + c - 1\<bar>" using h by argo
    with h show ?thesis by (intro init_rejects) simp_all
  qed
  show ?thesis using e1 e2 r s n by blast
qed

text \<open>
  The default factor weights 0.4, 0.3, 0.3 are accepted, and 0.4, 0.3, 0.2 are
  rejected.
\<close>

theorem init_tolerance_witness:
  "(0::real) \<le> 0.4 \<and> (0::real) \<le> 0.3 \<and> (0::real) \<le> 0.2
   \<and> \<bar>0.4 + 0.3 + 0.3 - (1::real)\<bar> \<le> 10009999 / 1000000000000
   \<and> init 0.4 0.3 0.3 0.15 0.01
       = Inr \<lparr>w_space_rev = 0.4, w_market_cap = 0.3, w_growth = 0.3,
              max_weight = 0.15, min_weight = 0.01\<rparr>
   \<and> \<bar>0.4 + 0.3 + 0.2 - (9 / 10 :: real)\<bar> \<le> 1 / 1000
   \<and> init 0.4 0.3 0.2 0.15 0.01 = Inl ValueError"
proof -
  have h: "(0::real) \<le> 0.4" "(0::real) \<le> 0.3" "(0::real) \<le> 0.2"
    "\<bar>0.4 + 0.3 + 0.3 - (1::real)\<bar> \<le> 10009999 / 1000000000000"
    "\<bar>0.4 + 0.3 + 0.2 - (9 / 10 :: real)\<bar> \<le> 1 / 1000"
    by simp_all
  have a: "init 0.4 0.3 0.3 0.15 0.01
       = Inr \<lparr>w_space_rev = 0.4, w_market_cap = 0.3, w_growth = 0.3,
              max_weight = 0.15, min_weight = 0.01\<rparr>"
    using init_tolerance [of "0.4" "0.3" "0.3" "0.15" "0.01"] h by blast
  have r: "init 0.4 0.3 0.2 0.15 0.01 = Inl ValueError"
    using init_tolerance [of "0.4" "0.3" "0.2" "0.15" "0.01"] h by blast
  show ?thesis by (intro conjI h a r)
qed

text \<open>
  The tolerance is not 1e-9: the factor weights 0.400005, 0.3, 0.3 sum to 1.000005,
  which is further than 1e-9 from 1.0, and the constructor accepts them.
\<close>

theorem init_accepts_sum_off_by_5e_6:
  "\<not> \<bar>(0.400005 + 0.3 + 0.3) - (1::real)\<bar> \<le> 1 / 1000000000
   \<and> init 0.400005 0.3 0.3 0.15 0.01
       = Inr \<lparr>w_space_rev = 0.400005, w_market_cap = 0.3, w_growth = 0.3,
              max_weight = 0.15, min_weight = 0.01\<rparr>"
  using init_accepts [of "0.400005" "0.3" "0.3" "0.15" "0.01"] by simp

subsection \<open>C4: the two-step clip and renormalise\<close>

text \<open>
  Claim C4: when the raw blended scores have a strictly positive sum (and the
  position bounds satisfy \<open>0 < min_w \<le> max_w\<close>, so that \<open>[min_w, max_w]\<close> is an
  interval of positive numbers; pandas orders the two bounds before it clips), the
  constituents built by \<open>calculate_weights\<close>
  are exactly the documented ones: constituent \<open>i\<close> carries the raw score
  \<open>s_i = exposure_i * w_exposure + cap_norm_i * w_cap + growth_norm_i * w_growth\<close>
  unchanged, and as weight the value \<open>s_i / sum s\<close> clipped to \<open>[min_w, max_w]\<close>
  and divided by the sum of all clipped values. The returned list is these
  constituents, sorted.
\<close>

theorem calculate_weights_two_step:
  assumes "flt (Fin 0) (series_sum (raw_scores self companies))"
    and "0 < min_weight self" and "min_weight self \<le> max_weight self"
  shows "normalize_market_cap (map (\<lambda>r. Fin (row_market_cap r)) companies)
           = map Fin (cap_norm (map row_market_cap companies))
       \<and> normalize_growth (map (\<lambda>r. Fin (row_revenue_growth_rate r)) companies)
           = map Fin (growth_norm (map row_revenue_growth_rate companies))
       \<and> map raw_score (constituents self companies) = map Fin (blended_scores self companies)
       \<and> map weight (constituents self companies)
           = map Fin (clip_renormalize (min_weight self) (max_weight self)
                        (blended_scores self companies))
       \<and> constituents self companies = documented_constituents self companies
       \<and> calculate_weights self companies
           = sort_reverse weight (documented_constituents self companies)
       \<and> mset (calculate_weights self companies)
           = mset (documented_constituents self companies)"
proof -
  have t: "sum_list (blended_scores self companies) \<noteq> 0"
    using assms(1) by (simp add: positive_total_iff)
  have mx: "0 < max_weight self" using assms(2,3) by simp
  have w: "weights self (raw_scores self companies) =
        map Fin (clip_renormalize (min_weight self) (max_weight self) (blended_scores self companies))"
    using weights_nonzero_total [OF t assms(2) mx] assms(3) by (simp add: min_def max_def)
  then have c: "constituents self companies = documented_constituents self companies"
    by (rule constituents_documented)
  have n1: "normalize_market_cap (map (\<lambda>r. Fin (row_market_cap r)) companies)
           = map Fin (cap_norm (map row_market_cap companies))"
    using normalize_market_cap_real [of "map row_market_cap companies"] by (simp add: comp_def)
  have n2: "normalize_growth (map (\<lambda>r. Fin (row_revenue_growth_rate r)) companies)
           = map Fin (growth_norm (map row_revenue_growth_rate companies))"
    using normalize_growth_real [of "map row_revenue_growth_rate companies"] by (simp add: comp_def)
  have r: "map raw_score (constituents self companies) = map Fin (blended_scores self companies)"
    by (simp only: map_raw_score_constituents raw_scores_real)
  have w': "map weight (constituents self companies)
           = map Fin (clip_renormalize (min_weight self) (max_weight self)
                        (blended_scores self companies))"
    by (simp only: map_weight_constituents w)
  have s: "calculate_weights self companies
           = sort_reverse weight (documented_constituents self companies)"
    using calculate_weights_sort [of self companies] by (simp only: c)
  have m: "mset (calculate_weights self companies) = mset (documented_constituents self companies)"
    using mset_calculate_weights [of self companies] by (simp only: c)
  show ?thesis by (intro conjI n1 n2 r w' c s m)
qed

text \<open>
  The three-candidate scenario of the specification: raw scores 85, 56 and 4, and
  final weights 340/593, 224/593 and 29/593.
\<close>

theorem calculate_weights_two_step_witness:
  "flt (Fin 0) (series_sum (raw_scores scenario_config scenario_companies))
   \<and> 0 < min_weight scenario_config
   \<and> min_weight scenario_config \<le> max_weight scenario_config
   \<and> map raw_score (constituents scenario_config scenario_companies)
       = map Fin (blended_scores scenario_config scenario_companies)
   \<and> map weight (constituents scenario_config scenario_companies)
       = map Fin (clip_renormalize (min_weight scenario_config) (max_weight scenario_config)
                    (blended_scores scenario_config scenario_companies))
   \<and> calculate_weights scenario_config scenario_companies
       = sort_reverse weight (documented_constituents scenario_config scenario_companies)
   \<and> map raw_score (calculate_weights scenario_config scenario_companies)
       = [Fin 85, Fin 56, Fin 4]
   \<and> map weight (calculate_weights scenario_config scenario_companies)
       = [Fin (340 / 593), Fin (224 / 593), Fin (29 / 593)]"
proof -
  have h1: "flt (Fin 0) (series_sum (raw_scores scenario_config scenario_companies))"
    by (simp add: eval_defs log10_1e9 log10_1e11 log10_1e7)
  have h2: "0 < min_weight scenario_config"
    by (simp add: scenario_config_def)
  have h3: "min_weight scenario_config \<le> max_weight scenario_config"
    by (simp add: scenario_config_def)
  have e1: "map raw_score (calculate_weights scenario_config scenario_companies)
            = [Fin 85, Fin 56, Fin 4]"
    by (simp add: eval_defs log10_1e9 log10_1e11 log10_1e7)
  have e2: "map weight (calculate_weights scenario_config scenario_companies)
            = [Fin (340 / 593), Fin (224 / 593), Fin (29 / 593)]"
    by (simp add: eval_defs log10_1e9 log10_1e11 log10_1e7)
  from calculate_weights_two_step [OF h1 h2 h3]
  have t1: "map raw_score (constituents scenario_config scenario_companies)
       = map Fin (blended_scores scenario_config scenario_companies)"
    and t2: "map weight (constituents scenario_config scenario_companies)
       = map Fin (clip_renormalize (min_weight scenario_config) (max_weight scenario_config)
                    (blended_scores scenario_config scenario_companies))"
    and t3: "calculate_weights scenario_config scenario_companies
       = sort_reverse weight (documented_constituents scenario_config scenario_companies)"
    by blast+
  show ?thesis by (intro conjI h1 h2 h3 e1 e2 t1 t2 t3)
qed

subsection \<open>C5: identical market caps\<close>

text \<open>
  Claim C5, as amended: for every non-empty candidate set in which every candidate
  has the same market capitalisation \<open>cap\<close>, \<open>normalize_market_cap\<close> assigns every
  candidate 50.0 when \<open>cap\<close> is strictly positive, and 0.0 otherwise (a zero cap is
  replaced by NaN before the logarithm, and a NaN result is filled with 0).
\<close>

theorem normalize_market_cap_identical:
  assumes "market_caps \<noteq> []" and "list_all (\<lambda>c. c = cap) market_caps"
  shows "normalize_market_cap (map Fin market_caps)
         = map (\<lambda>_. if 0 < cap then Fin 50 else Fin 0) market_caps"
proof -
  have rep: "market_caps = replicate (length market_caps) cap"
    using assms(2) by (simp add: list_all_iff replicate_length_same)
  have n: "0 < length market_caps" using assms(1) by simp
  show ?thesis
  proof (cases "0 < cap")
    case True
    have kl: "known_logs market_caps = replicate (length market_caps) (log 10 cap)"
      by (subst rep) (simp add: known_logs_def True)
    then have "set (known_logs market_caps) = {log 10 cap}" using n by simp
    then show ?thesis
      using True n kl by (simp add: normalize_market_cap_real cap_norm_def Let_def)
  next
    case False
    have "known_logs market_caps = []"
      by (subst rep) (simp add: known_logs_def False)
    then show ?thesis
      using False by (simp add: normalize_market_cap_real cap_norm_def Let_def)
  qed
qed

theorem normalize_market_cap_identical_witness:
  "[5, 5, 5] \<noteq> ([] :: real list) \<and> list_all (\<lambda>c. c = 5) [5, 5, 5 :: real]
   \<and> normalize_market_cap (map Fin [5, 5, 5]) = [Fin 50, Fin 50, Fin 50]
   \<and> [7] \<noteq> ([] :: real list) \<and> list_all (\<lambda>c. c = 7) [7 :: real]
   \<and> normalize_market_cap (map Fin [7]) = [Fin 50]"
  using normalize_market_cap_identical [of "[5, 5, 5]" 5]
    normalize_market_cap_identical [of "[7]" 7]
  by simp

text \<open>
  Two candidates, or a single one, with market cap 0 get the score 0.0, not 50.0.
\<close>

theorem normalize_market_cap_all_zero:
  "normalize_market_cap [Fin 0, Fin 0] = [Fin 0, Fin 0]
   \<and> normalize_market_cap [Fin 0, Fin 0] \<noteq> [Fin 50, Fin 50]
   \<and> normalize_market_cap [Fin 0] = [Fin 0]
   \<and> normalize_market_cap [Fin 0] \<noteq> [Fin 50]"
  by (simp add: eval_defs)

subsection \<open>C6: growth rates are clipped to -50..200\<close>

text \<open>
  Claim C6: \<open>normalize_growth\<close> clips every growth rate to the band from -50 to 200
  and then rescales by minimum and maximum: on finite growth rates its result is
  \<open>growth_norm\<close>, the min-max rescaling to 0..100 of the rates clipped to that
  band (50 for all when the clipped rates are all equal). So normalising a series
  and normalising its clipped series give the same result; and in every series,
  candidates with raw growth 500 and 201 get exactly the normalised score of a
  candidate with raw growth 200.
\<close>

theorem normalize_growth_clips:
  assumes "i < length growth_rates" and "j < length growth_rates" and "k < length growth_rates"
    and "growth_rates ! i = Fin 500" and "growth_rates ! j = Fin 201"
    and "growth_rates ! k = Fin 200"
  shows "normalize_growth (map Fin gs) = map Fin (growth_norm gs)
       \<and> growth_norm gs
           = (if Max (set (map (\<lambda>g. min 200 (max (- 50) g)) gs))
                 = Min (set (map (\<lambda>g. min 200 (max (- 50) g)) gs))
              then map (\<lambda>_. 50) gs
              else map (\<lambda>g. (min 200 (max (- 50) g)
                               - Min (set (map (\<lambda>g. min 200 (max (- 50) g)) gs)))
                            / (Max (set (map (\<lambda>g. min 200 (max (- 50) g)) gs))
                               - Min (set (map (\<lambda>g. min 200 (max (- 50) g)) gs)))
                            * 100) gs)
       \<and> normalize_growth growth_rates = normalize_growth (series_clip (- 50) 200 growth_rates)
       \<and> normalize_growth growth_rates ! i = normalize_growth growth_rates ! k
       \<and> normalize_growth growth_rates ! j = normalize_growth growth_rates ! k"
proof -
  have c: "clip_scalar (- 50) 200 (Fin 500) = Fin 200"
    "clip_scalar (- 50) 200 (Fin 201) = Fin 200"
    "clip_scalar (- 50) 200 (Fin 200) = Fin 200"
    by (simp_all add: clip_scalar_def isna_def)
  have r: "normalize_growth (map Fin gs) = map Fin (growth_norm gs)"
    by (rule normalize_growth_real)
  have g: "growth_norm gs
           = (if Max (set (map (\<lambda>g. min 200 (max (- 50) g)) gs))
                 = Min (set (map (\<lambda>g. min 200 (max (- 50) g)) gs))
              then map (\<lambda>_. 50) gs
              else map (\<lambda>g. (min 200 (max (- 50) g)
                               - Min (set (map (\<lambda>g. min 200 (max (- 50) g)) gs)))
                            / (Max (set (map (\<lambda>g. min 200 (max (- 50) g)) gs))
                               - Min (set (map (\<lambda>g. min 200 (max (- 50) g)) gs)))
                            * 100) gs)"
    by (simp add: growth_norm_def Let_def clip_real_def [abs_def] rescale_def [abs_def] comp_def)
  have eq: "normalize_growth growth_rates = normalize_growth (series_clip (- 50) 200 growth_rates)"
    unfolding normalize_growth_def [of "series_clip (- 50) 200 growth_rates"] series_clip_idem
    by (simp add: normalize_growth_def series_clip_def Let_def)
  have ik: "normalize_growth growth_rates ! i = normalize_growth growth_rates ! k"
    using assms by (simp add: normalize_growth_nth c)
  have jk: "normalize_growth growth_rates ! j = normalize_growth growth_rates ! k"
    using assms by (simp add: normalize_growth_nth c)
  show ?thesis by (intro conjI r g eq ik jk)
qed

text \<open>
  Growth rates 500, 201, 200, 0, -50 and -60: the first three are clipped to 200
  and score 100, the last two are clipped to -50 and score 0, and 0 scores
  \<open>(0 + 50) / 250 * 100 = 20\<close>.
\<close>

theorem normalize_growth_clips_witness:
  "0 < length [Fin 500, Fin 201, Fin 200, Fin 0, Fin (- 50), Fin (- 60)]
   \<and> 1 < length [Fin 500, Fin 201, Fin 200, Fin 0, Fin (- 50), Fin (- 60)]
   \<and> 2 < length [Fin 500, Fin 201, Fin 200, Fin 0, Fin (- 50), Fin (- 60)]
   \<and> [Fin 500, Fin 201, Fin 200, Fin 0, Fin (- 50), Fin (- 60)] ! 0 = Fin 500
   \<and> [Fin 500, Fin 201, Fin 200, Fin 0, Fin (- 50), Fin (- 60)] ! 1 = Fin 201
   \<and> [Fin 500, Fin 201, Fin 200, Fin 0, Fin (- 50), Fin (- 60)] ! 2 = Fin 200
   \<and> normalize_growth [Fin 500, Fin 201, Fin 200, Fin 0, Fin (- 50), Fin (- 60)] ! 0
       = normalize_growth [Fin 500, Fin 201, Fin 200, Fin 0, Fin (- 50), Fin (- 60)] ! 2
   \<and> normalize_growth [Fin 500, Fin 201, Fin 200, Fin 0, Fin (- 50), Fin (- 60)] ! 1
       = normalize_growth [Fin 500, Fin 201, Fin 200, Fin 0, Fin (- 50), Fin (- 60)] ! 2
   \<and> normalize_growth (map Fin [500, 201, 200, 0, - 50, - 60])
       = map Fin (growth_norm [500, 201, 200, 0, - 50, - 60])
   \<and> growth_norm [500, 201, 200, 0, - 50, - 60] = [100, 100, 100, 20, 0, 0]
   \<and> normalize_growth [Fin 500, Fin 201, Fin 200, Fin 0, Fin (- 50), Fin (- 60)]
       = [Fin 100, Fin 100, Fin 100, Fin 20, Fin 0, Fin 0]"
proof -
  let ?xs = "[Fin 500, Fin 201, Fin 200, Fin 0, Fin (- 50), Fin (- 60)]"
  have h: "0 < length ?xs" "1 < length ?xs" "2 < length ?xs"
    "?xs ! 0 = Fin 500" "?xs ! 1 = Fin 201" "?xs ! 2 = Fin 200"
    by simp_all
  have e: "normalize_growth ?xs = [Fin 100, Fin 100, Fin 100, Fin 20, Fin 0, Fin 0]"
    by (simp add: eval_defs)
  have n: "growth_norm [500, 201, 200, 0, - 50, - 60] = [100, 100, 100, 20, 0, 0]"
    by (simp add: growth_norm_def clip_real_def rescale_def Let_def)
  note t = normalize_growth_clips [OF h, of "[500, 201, 200, 0, - 50, - 60]"]
  show ?thesis
    by (intro conjI h e n t [THEN conjunct1]
        t [THEN conjunct2, THEN conjunct2, THEN conjunct2, THEN conjunct1]
        t [THEN conjunct2, THEN conjunct2, THEN conjunct2, THEN conjunct2])
qed

subsection \<open>C7: a single candidate\<close>

text \<open>
  Claim C7 states that a single candidate always gets the final weight 1.0. It
  does whenever its raw score is not 0 and the position bounds are positive
  (lemma \<open>single_candidate_weight_one\<close>). With the accepted configuration
  (1, 0, 0) and a candidate of exposure 0 the raw score is 0, and the final weight
  is NaN: the division by the zero total is not guarded.
\<close>

theorem single_candidate_nan_at_zero_score:
  "init 1 0 0 0.15 0.01 = Inr exposure_only
   \<and> map raw_score (calculate_weights exposure_only [company ''A'' 5000000000 0 10]) = [Fin 0]
   \<and> map weight (calculate_weights exposure_only [company ''A'' 5000000000 0 10]) = [NaN]"
proof -
  have "init 1 0 0 0.15 0.01 = Inr exposure_only"
    using init_accepts [of 1 0 0 "0.15" "0.01"] by (simp add: exposure_only_def)
  then show ?thesis by (simp add: eval_defs)
qed

subsection \<open>C8: the output order\<close>

text \<open>
  Claim C8: for every candidate set (exposures and factor weights non-negative,
  position bounds positive, as the data model has them) the list returned by
  \<open>calculate_weights\<close> is in descending order of final weight: no constituent is
  followed by one of strictly greater weight, and when the raw scores have a
  positive total every weight is at least the next one. The constituents of any one
  weight appear in the order in which the loop over the rows built them, which is
  the order of the rows.
\<close>

theorem calculate_weights_sorted_stable:
  assumes "list_all (\<lambda>r. 0 \<le> row_space_revenue_pct r) companies"
    and "0 \<le> w_space_rev self" and "0 \<le> w_market_cap self" and "0 \<le> w_growth self"
    and "0 < min_weight self" and "0 < max_weight self"
  shows "sorted_wrt (\<lambda>a b. \<not> flt (weight a) (weight b)) (calculate_weights self companies)
       \<and> (flt (Fin 0) (series_sum (raw_scores self companies)) \<longrightarrow>
            sorted_wrt (\<lambda>a b. fle (weight b) (weight a)) (calculate_weights self companies))
       \<and> (\<forall>k. filter (\<lambda>c. weight c = k) (calculate_weights self companies)
               = filter (\<lambda>c. weight c = k) (constituents self companies))
       \<and> map ticker (constituents self companies) = map row_ticker companies"
proof -
  let ?s = "blended_scores self companies"
  let ?cs = "constituents self companies"
  have nonneg: "\<And>x. x \<in> set ?s \<Longrightarrow> 0 \<le> x"
    by (rule blended_scores_nonneg [OF assms(1-4)])
  have key: "weight c \<in> set (weights self (raw_scores self companies))" if "c \<in> set ?cs" for c
  proof -
    from that have "weight c \<in> set (map weight ?cs)" by simp
    then show ?thesis by (simp only: map_weight_constituents)
  qed
  have stable: "\<forall>k. filter (\<lambda>c. weight c = k) (calculate_weights self companies)
               = filter (\<lambda>c. weight c = k) ?cs"
    by (simp add: calculate_weights_sort sort_reverse_stable)
  show ?thesis
  proof (cases "sum_list ?s = 0")
    case True
    have zero: "\<And>x. x \<in> set ?s \<Longrightarrow> x = 0"
      using True nonneg by (simp add: sum_list_nonneg_eq_0_iff)
    have "weights self (raw_scores self companies) = map (\<lambda>_. NaN) ?s"
      unfolding raw_scores_real by (rule weights_zero_scores [OF zero])
    then have nan: "\<And>c. c \<in> set ?cs \<Longrightarrow> weight c = NaN"
      using key by auto
    have same: "calculate_weights self companies = ?cs"
      unfolding calculate_weights_sort by (rule sort_reverse_all_NaN [OF nan])
    have "sorted_wrt (\<lambda>a b. \<not> flt (weight a) (weight b)) ?cs"
      by (rule no_inversion_all_NaN [OF nan])
    moreover have "\<not> flt (Fin 0) (series_sum (raw_scores self companies))"
      using True by (simp add: positive_total_iff)
    ultimately show ?thesis using same stable map_ticker_constituents by simp
  next
    case False
    have fin: "weight c \<noteq> NaN" if "c \<in> set ?cs" for c
      using weights_nonzero_total_pos [OF False assms(5,6) key [OF that]] by auto
    have "sorted_wrt (\<lambda>a b. fle (weight b) (weight a)) (calculate_weights self companies)"
      unfolding calculate_weights_sort by (rule sorted_sort_reverse [OF fin])
    then show ?thesis using stable map_ticker_constituents no_inversion_of_sorted by blast
  qed
qed

text \<open>
  Three candidates of which the first and the third tie: the second comes first,
  and the tied ones keep their input order.
\<close>

theorem calculate_weights_sorted_stable_witness:
  "list_all (\<lambda>r. 0 \<le> row_space_revenue_pct r)
     [company ''A'' 0 50 10, company ''B'' 0 90 10, company ''C'' 0 50 10]
   \<and> 0 \<le> w_space_rev scenario_config \<and> 0 \<le> w_market_cap scenario_config
   \<and> 0 \<le> w_growth scenario_config
   \<and> 0 < min_weight scenario_config \<and> 0 < max_weight scenario_config
   \<and> sorted_wrt (\<lambda>a b. \<not> flt (weight a) (weight b))
        (calculate_weights scenario_config
           [company ''A'' 0 50 10, company ''B'' 0 90 10, company ''C'' 0 50 10])
   \<and> sorted_wrt (\<lambda>a b. fle (weight b) (weight a))
        (calculate_weights scenario_config
           [company ''A'' 0 50 10, company ''B'' 0 90 10, company ''C'' 0 50 10])
   \<and> filter (\<lambda>c. weight c = Fin (35 / 121))
        (calculate_weights scenario_config
           [company ''A'' 0 50 10, company ''B'' 0 90 10, company ''C'' 0 50 10])
       = filter (\<lambda>c. weight c = Fin (35 / 121))
           (constituents scenario_config
              [company ''A'' 0 50 10, company ''B'' 0 90 10, company ''C'' 0 50 10])
   \<and> map ticker
        (calculate_weights scenario_config
           [company ''A'' 0 50 10, company ''B'' 0 90 10, company ''C'' 0 50 10])
       = [''B'', ''A'', ''C'']
   \<and> map weight
        (calculate_weights scenario_config
           [company ''A'' 0 50 10, company ''B'' 0 90 10, company ''C'' 0 50 10])
       = [Fin (51 / 121), Fin (35 / 121), Fin (35 / 121)]"
proof -
  let ?cs = "[company ''A'' 0 50 10, company ''B'' 0 90 10, company ''C'' 0 50 10]"
  have h1: "list_all (\<lambda>r. 0 \<le> row_space_revenue_pct r) ?cs"
    by (simp add: company_def)
  have h2: "0 \<le> w_space_rev scenario_config" and h3: "0 \<le> w_market_cap scenario_config"
    and h4: "0 \<le> w_growth scenario_config" and h5: "0 < min_weight scenario_config"
    and h6: "0 < max_weight scenario_config"
    by (simp_all add: scenario_config_def)
  have p: "flt (Fin 0) (series_sum (raw_scores scenario_config ?cs))"
    by (simp add: eval_defs)
  have e1: "map ticker (calculate_weights scenario_config ?cs) = [''B'', ''A'', ''C'']"
    by (simp add: eval_defs)
  have e2: "map weight (calculate_weights scenario_config ?cs)
            = [Fin (51 / 121), Fin (35 / 121), Fin (35 / 121)]"
    by (simp add: eval_defs)
  note t = calculate_weights_sorted_stable [OF h1 h2 h3 h4 h5 h6]
  have s: "sorted_wrt (\<lambda>a b. fle (weight b) (weight a)) (calculate_weights scenario_config ?cs)"
    using t p by blast
  have f: "filter (\<lambda>c. weight c = Fin (35 / 121)) (calculate_weights scenario_config ?cs)
           = filter (\<lambda>c. weight c = Fin (35 / 121)) (constituents scenario_config ?cs)"
    using t by blast
  show ?thesis
    by (intro conjI h1 h2 h3 h4 h5 h6 e1 e2 s f t [THEN conjunct1])
qed

subsection \<open>C9: empty input\<close>

text \<open>
  Claim C9: for an empty candidate set \<open>calculate_weights\<close> returns the empty list,
  and \<open>summary_stats\<close> of the empty list is the empty dictionary. Neither function
  has a raising branch.
\<close>

theorem empty_input:
  "calculate_weights self [] = [] \<and> summary_stats [] = []
   \<and> summary_stats (calculate_weights self []) = []"
  by (simp add: calculate_weights_def)

subsection \<open>C10: every weight is positive\<close>

text \<open>
  Claim C10: when the raw blended scores have a strictly positive sum (and the
  position bounds are positive), every final weight is strictly positive, also that
  of a candidate whose raw score is 0: clipping raises its unconstrained weight to
  the lower bound before the renormalisation.
\<close>

theorem calculate_weights_positive:
  assumes "flt (Fin 0) (series_sum (raw_scores self companies))"
    and "0 < min_weight self" and "0 < max_weight self"
  shows "list_all (\<lambda>c. flt (Fin 0) (weight c)) (calculate_weights self companies)"
proof -
  have t: "sum_list (blended_scores self companies) \<noteq> 0"
    using assms(1) by (simp add: positive_total_iff)
  have "flt (Fin 0) (weight c)" if "c \<in> set (calculate_weights self companies)" for c
  proof -
    from that have "c \<in> set (constituents self companies)"
      by (simp add: set_calculate_weights)
    then have "weight c \<in> set (map weight (constituents self companies))" by simp
    then have "weight c \<in> set (weights self (raw_scores self companies))"
      by (simp only: map_weight_constituents)
    from weights_nonzero_total_pos [OF t assms(2,3) this] show ?thesis by auto
  qed
  then show ?thesis by (simp add: list_all_iff)
qed

text \<open>
  A candidate with raw score 0 next to one with raw score 50: the weights are 1/16
  and 15/16.
\<close>

theorem calculate_weights_positive_witness:
  "flt (Fin 0)
     (series_sum (raw_scores exposure_only [company ''A'' 0 0 10, company ''B'' 0 50 10]))
   \<and> 0 < min_weight exposure_only \<and> 0 < max_weight exposure_only
   \<and> list_all (\<lambda>c. flt (Fin 0) (weight c))
        (calculate_weights exposure_only [company ''A'' 0 0 10, company ''B'' 0 50 10])
   \<and> map raw_score
        (calculate_weights exposure_only [company ''A'' 0 0 10, company ''B'' 0 50 10])
       = [Fin 50, Fin 0]
   \<and> map weight
        (calculate_weights exposure_only [company ''A'' 0 0 10, company ''B'' 0 50 10])
       = [Fin (15 / 16), Fin (1 / 16)]"
proof -
  let ?cs = "[company ''A'' 0 0 10, company ''B'' 0 50 10]"
  have h1: "flt (Fin 0) (series_sum (raw_scores exposure_only ?cs))"
    by (simp add: eval_defs)
  have h2: "0 < min_weight exposure_only" and h3: "0 < max_weight exposure_only"
    by (simp_all add: exposure_only_def)
  have e1: "map raw_score (calculate_weights exposure_only ?cs) = [Fin 50, Fin 0]"
    by (simp add: eval_defs)
  have e2: "map weight (calculate_weights exposure_only ?cs) = [Fin (15 / 16), Fin (1 / 16)]"
    by (simp add: eval_defs)
  show ?thesis
    by (intro conjI h1 h2 h3 e1 e2 calculate_weights_positive [OF h1 h2 h3])
qed

end
